theory Spec2Isabelle
  imports Complex_Main
begin

section \<open>JavaScript primitives used by the interview modules\<close>

text \<open>
  A JavaScript number is modelled by its exact rational value. Where the source computes
  with numbers that need not be integers, each arithmetic operation is the IEEE 754 double operation: the exact result
  rounded to the nearest double, ties to even (\<open>dadd\<close>, \<open>dsub\<close>, \<open>dmul\<close>, \<open>ddiv\<close>), and a
  decimal literal is the nearest double (\<open>dlit\<close>). Strings are lists of code units below 256
  (Latin-1).
\<close>

datatype js_error = TypeError

definition js_round :: "rat \<Rightarrow> int" where
  \<comment> \<open>\<open>Math.round\<close>: the nearest integer, a tie going up.\<close>
  "js_round x = \<lfloor>x + 1 / 2\<rfloor>"

definition js_or :: "'a::zero option \<Rightarrow> 'a \<Rightarrow> 'a" where
  \<comment> \<open>\<open>x || d\<close> on a number that may be missing: \<open>undefined\<close> and \<open>0\<close> are falsy.\<close>
  "js_or x d = (case x of None \<Rightarrow> d | Some v \<Rightarrow> if v = 0 then d else v)"

definition js_or_list :: "'a list option \<Rightarrow> 'a list" where
  \<comment> \<open>\<open>xs || []\<close>: every array, the empty one too, is truthy.\<close>
  "js_or_list x = (case x of None \<Rightarrow> [] | Some xs \<Rightarrow> xs)"

definition slice_from :: "int \<Rightarrow> 'a list \<Rightarrow> 'a list" where
  \<comment> \<open>\<open>xs.slice(start)\<close>: a negative start counts from the end.\<close>
  "slice_from start xs =
     (let n = int (length xs);
          k = (if start < 0 then max (n + start) 0 else min start n)
      in drop (nat k) xs)"

definition nan_ge :: "rat option \<Rightarrow> rat \<Rightarrow> bool" where
  \<comment> \<open>\<open>a >= t\<close>, false on \<open>NaN\<close>.\<close>
  "nan_ge a t = (case a of None \<Rightarrow> False | Some v \<Rightarrow> t \<le> v)"

definition nan_le :: "rat option \<Rightarrow> rat \<Rightarrow> bool" where
  \<comment> \<open>\<open>a <= t\<close>, false on \<open>NaN\<close>.\<close>
  "nan_le a t = (case a of None \<Rightarrow> False | Some v \<Rightarrow> v \<le> t)"

definition dq :: string where
  \<comment> \<open>the double quote character inside the prompt templates\<close>
  "dq = [CHR 0x22]"




section \<open>Double arithmetic\<close>

definition round_even :: "rat \<Rightarrow> int" where
  \<comment> \<open>the nearest integer, a tie going to the even one\<close>
  "round_even x =
     (let f = \<lfloor>x\<rfloor>; d = x - of_int f
      in if d < 1 / 2 then f else if 1 / 2 < d then f + 1 else if even f then f else f + 1)"

definition pow2 :: "int \<Rightarrow> rat" where
  "pow2 e = (if 0 \<le> e then 2 ^ nat e else 1 / 2 ^ nat (- e))"

function binade_up :: "rat \<Rightarrow> int" where
  \<comment> \<open>for \<open>x\<close> at least 1, the \<open>e\<close> with \<open>2 ^ e \<le> x < 2 ^ (e + 1)\<close>\<close>
  "binade_up x = (if 2 \<le> x then 1 + binade_up (x / 2) else 0)"
  by pat_completeness auto
termination
proof (relation "measure (\<lambda>x. nat \<lfloor>x\<rfloor>)")
  show "wf (measure (\<lambda>x::rat. nat \<lfloor>x\<rfloor>))" by simp
next
  fix x :: rat assume a: "2 \<le> x"
  have "of_int \<lfloor>x / 2\<rfloor> \<le> x / 2" by (rule of_int_floor_le)
  also have "\<dots> \<le> x - 1" using a by simp
  also have "\<dots> < of_int \<lfloor>x\<rfloor>" by linarith
  finally have "\<lfloor>x / 2\<rfloor> < \<lfloor>x\<rfloor>" by simp
  moreover have "0 < \<lfloor>x\<rfloor>" using a by linarith
  ultimately show "(x / 2, x) \<in> measure (\<lambda>x::rat. nat \<lfloor>x\<rfloor>)" by simp
qed

declare binade_up.simps [simp del]

definition binade :: "rat \<Rightarrow> int" where
  \<comment> \<open>for positive \<open>x\<close>, the \<open>e\<close> with \<open>2 ^ e \<le> x < 2 ^ (e + 1)\<close>\<close>
  "binade x =
     (if 1 \<le> x then binade_up x
      else (let k = binade_up (1 / x) in if pow2 (- k) = x then - k else - k - 1))"

definition fl :: "rat \<Rightarrow> rat" where
  \<comment> \<open>the nearest double: 53 significant bits, so the spacing in the binade \<open>e\<close> is
      \<open>2 ^ (e - 52)\<close>; the numbers of this program stay far from overflow and underflow\<close>
  "fl x =
     (if x = 0 then 0
      else (let q = pow2 (binade \<bar>x\<bar> - 52)
            in sgn x * of_int (round_even (\<bar>x\<bar> / q)) * q))"

definition dadd :: "rat \<Rightarrow> rat \<Rightarrow> rat" where
  "dadd x y = fl (x + y)"

definition dsub :: "rat \<Rightarrow> rat \<Rightarrow> rat" where
  "dsub x y = fl (x - y)"

definition dmul :: "rat \<Rightarrow> rat \<Rightarrow> rat" where
  "dmul x y = fl (x * y)"

definition ddiv :: "rat \<Rightarrow> rat \<Rightarrow> rat" where
  "ddiv x y = fl (x / y)"

definition dlit :: "rat \<Rightarrow> rat" where
  \<comment> \<open>a decimal literal of the source\<close>
  "dlit x = fl x"

definition dsum :: "rat list \<Rightarrow> rat" where
  \<comment> \<open>\<open>xs.reduce((a, b) => a + b, 0)\<close>\<close>
  "dsum xs = foldl dadd 0 xs"

definition daverage :: "rat list \<Rightarrow> rat option" where
  \<comment> \<open>\<open>xs.reduce((a, b) => a + b, 0) / xs.length\<close>; \<open>None\<close> is the \<open>NaN\<close> of \<open>0 / 0\<close>\<close>
  "daverage xs = (if xs = [] then None else Some (ddiv (dsum xs) (of_nat (length xs))))"

definition dround1 :: "rat \<Rightarrow> rat" where
  \<comment> \<open>\<open>Math.round(x * 10) / 10\<close>\<close>
  "dround1 x = ddiv (of_int (js_round (dmul x 10))) 10"

definition dround2 :: "rat \<Rightarrow> rat" where
  \<comment> \<open>\<open>Math.round(x * 100) / 100\<close>\<close>
  "dround2 x = ddiv (of_int (js_round (dmul x 100))) 100"


section \<open>Adaptive difficulty module\<close>

record score_threshold =
  up :: "rat option"
  down :: "rat option"

record level_config =
  lc_name :: string
  lc_description :: string
  lc_promptModifier :: string
  lc_scoreThreshold :: score_threshold

definition DIFFICULTY_LEVELS :: "int \<Rightarrow> level_config option" where
  "DIFFICULTY_LEVELS l =
     (if l = 1 then Some \<lparr>lc_name = ''Easy'',
          lc_description = ''Fundamental concepts and definitions'',
          lc_promptModifier = ''Ask a basic, introductory-level question about fundamentals or definitions.'',
          lc_scoreThreshold = \<lparr>up = Some 7, down = None\<rparr>\<rparr>
      else if l = 2 then Some \<lparr>lc_name = ''Medium'',
          lc_description = ''Applied knowledge and scenarios'',
          lc_promptModifier = ''Ask a moderate-difficulty question involving practical application or scenario-based thinking.'',
          lc_scoreThreshold = \<lparr>up = Some 8, down = Some 4\<rparr>\<rparr>
      else if l = 3 then Some \<lparr>lc_name = ''Hard'',
          lc_description = ''Advanced concepts, system design, edge cases'',
          lc_promptModifier = ''Ask an advanced, challenging question about system design, edge cases, or deep technical concepts.'',
          lc_scoreThreshold = \<lparr>up = None, down = Some 5\<rparr>\<rparr>
      else None)"

definition QUESTION_TYPES :: "string list" where
  "QUESTION_TYPES =
     [''technical'', ''behavioral'', ''technical'', ''problem_solving'', ''technical'',
      ''behavioral'', ''technical'', ''system_design'', ''situational'', ''technical'']"

definition QUESTION_TYPE_PROMPTS :: "string \<Rightarrow> string" where
  "QUESTION_TYPE_PROMPTS t =
     (if t = ''technical'' then ''Ask a technical question about programming concepts, algorithms, or specific technologies.''
      else if t = ''behavioral'' then ''Ask a behavioral question using the STAR format (e.g., '' @ dq @ ''Tell me about a time when...'' @ dq @ '')''
      else if t = ''problem_solving'' then ''Present a coding or problem-solving scenario and ask how they would approach it.''
      else if t = ''system_design'' then ''Ask a system design question about architecture, scalability, or infrastructure.''
      else if t = ''situational'' then ''Ask a situational question about how they would handle a hypothetical workplace scenario.''
      else ''undefined'')"

record follow_up_context =
  fc_question :: string
  fc_answer :: string
  fc_score :: rat

record adaptation_entry =
  ae_questionIndex :: nat
  ae_score :: rat
  ae_avgScore :: "rat option"
  ae_previousLevel :: int
  ae_newLevel :: int
  ae_changed :: bool
  ae_timestamp :: nat

record adaptive_state =
  currentLevel :: int
  windowSize :: int
  scoreHistory :: "rat list"
  levelHistory :: "int list"
  questionIndex :: nat
  followUpPending :: bool
  followUpContext :: "follow_up_context option"
  adaptationLog :: "adaptation_entry list"

definition new_manager :: "int option \<Rightarrow> int option \<Rightarrow> adaptive_state" where
  \<comment> \<open>the constructor, given \<open>options.startLevel\<close> and \<open>options.windowSize\<close>\<close>
  "new_manager startLevel window =
     (let l = js_or startLevel 1 in
      \<lparr>currentLevel = l, windowSize = js_or window 3, scoreHistory = [],
       levelHistory = [l], questionIndex = 0, followUpPending = False,
       followUpContext = None, adaptationLog = []\<rparr>)"

definition next_level :: "level_config \<Rightarrow> int \<Rightarrow> rat option \<Rightarrow> int" where
  \<comment> \<open>the body of the \<open>if (this.scoreHistory.length >= 2)\<close> block of \<open>recordScore\<close>\<close>
  "next_level config l avgScore =
     (if up (lc_scoreThreshold config) \<noteq> None \<and> nan_ge avgScore (the (up (lc_scoreThreshold config)))
        then min 3 (l + 1)
      else if down (lc_scoreThreshold config) \<noteq> None \<and> nan_le avgScore (the (down (lc_scoreThreshold config)))
        then max 1 (l - 1)
      else l)"

definition recordScore :: "nat \<Rightarrow> rat \<Rightarrow> adaptive_state \<Rightarrow> js_error + (adaptation_entry \<times> adaptive_state)" where
  \<comment> \<open>\<open>now\<close> is the wall clock read for the log entry. Reading \<open>config.scoreThreshold\<close> of a
      level outside the table throws.\<close>
  "recordScore now score st =
     (let hist = scoreHistory st @ [score];
          recentScores = slice_from (- windowSize st) hist;
          avgScore = daverage recentScores;
          previousLevel = currentLevel st
      in case (if length hist \<ge> 2
               then (case DIFFICULTY_LEVELS previousLevel of
                       None \<Rightarrow> Inl TypeError
                     | Some config \<Rightarrow> Inr (next_level config previousLevel avgScore))
               else Inr previousLevel) of
           Inl e \<Rightarrow> Inl e
         | Inr newLevel \<Rightarrow>
             (let entry = \<lparr>ae_questionIndex = questionIndex st, ae_score = score,
                           ae_avgScore = map_option dround1 avgScore,
                           ae_previousLevel = previousLevel, ae_newLevel = newLevel,
                           ae_changed = (previousLevel \<noteq> newLevel), ae_timestamp = now\<rparr>
              in Inr (entry, st\<lparr>currentLevel := newLevel, scoreHistory := hist,
                                 adaptationLog := adaptationLog st @ [entry],
                                 levelHistory := levelHistory st @ [newLevel]\<rparr>)))"

record follow_up_result =
  fr_shouldFollowUp :: bool
  fr_reason :: "string option"
  fr_prompt :: "string option"

definition generateFollowUpPrompt :: "rat \<Rightarrow> string \<Rightarrow> string \<Rightarrow> string" where
  "generateFollowUpPrompt score question answer =
     (if score \<le> 4
      then ''The candidate's answer was incomplete or unclear. They said: '' @ dq @ take 100 answer
           @ ''...'' @ dq @ '' Ask a targeted follow-up to help them demonstrate their knowledge better. For example: ''
           @ dq @ ''Can you be more specific about...'' @ dq @ '' or '' @ dq @ ''What exactly do you mean by...'' @ dq
      else ''The candidate gave a partial answer. They said: '' @ dq @ take 100 answer
           @ ''...'' @ dq @ '' Ask them to elaborate on a specific aspect they mentioned but didn't fully explain.'')"

definition shouldFollowUp :: "rat \<Rightarrow> string \<Rightarrow> string \<Rightarrow> adaptive_state \<Rightarrow> follow_up_result \<times> adaptive_state" where
  "shouldFollowUp score question answer st =
     (if score \<ge> 3 \<and> score \<le> 6 \<and> \<not> followUpPending st then
        (\<lparr>fr_shouldFollowUp = True,
          fr_reason = Some (if score \<le> 4 then ''incomplete_answer'' else ''can_elaborate''),
          fr_prompt = Some (generateFollowUpPrompt score question answer)\<rparr>,
         st\<lparr>followUpPending := True,
            followUpContext := Some \<lparr>fc_question = question, fc_answer = answer, fc_score = score\<rparr>\<rparr>)
      else if score \<ge> 8 \<and> questionIndex st mod 3 = 0 \<and> \<not> followUpPending st then
        (\<lparr>fr_shouldFollowUp = True,
          fr_reason = Some ''probe_deeper'',
          fr_prompt = Some (''The candidate gave an excellent answer. Ask a deeper follow-up question to probe their understanding further. Reference their previous answer: ''
                            @ dq @ take 100 answer @ ''...'' @ dq)\<rparr>,
         st\<lparr>followUpPending := True,
            followUpContext := Some \<lparr>fc_question = question, fc_answer = answer, fc_score = score\<rparr>\<rparr>)
      else
        (\<lparr>fr_shouldFollowUp = False, fr_reason = None, fr_prompt = None\<rparr>,
         st\<lparr>followUpPending := False, followUpContext := None\<rparr>))"

record question_config =
  qc_difficulty :: int
  qc_difficultyName :: string
  qc_questionType :: string
  qc_isFollowUp :: bool
  qc_prompt :: string

definition getNextQuestionConfig :: "adaptive_state \<Rightarrow> js_error + (question_config \<times> adaptive_state)" where
  \<comment> \<open>The stored follow-up context has no \<open>prompt\<close> field, so the follow-up prompt is always
      the fallback text. Reading \<open>level.name\<close> of a level outside the table throws.\<close>
  "getNextQuestionConfig st =
     (case DIFFICULTY_LEVELS (currentLevel st) of
        None \<Rightarrow> Inl TypeError
      | Some level \<Rightarrow>
          (let typeIndex = questionIndex st mod length QUESTION_TYPES;
               questionType = QUESTION_TYPES ! typeIndex;
               typePrompt = QUESTION_TYPE_PROMPTS questionType
           in if followUpPending st \<and> followUpContext st \<noteq> None then
                Inr (\<lparr>qc_difficulty = currentLevel st, qc_difficultyName = lc_name level,
                      qc_questionType = ''follow_up'', qc_isFollowUp = True,
                      qc_prompt = ''Ask a follow-up question about: '' @ dq
                                  @ fc_question (the (followUpContext st)) @ dq\<rparr>,
                     st\<lparr>followUpPending := False\<rparr>)
              else
                Inr (\<lparr>qc_difficulty = currentLevel st, qc_difficultyName = lc_name level,
                      qc_questionType = questionType, qc_isFollowUp = False,
                      qc_prompt = lc_promptModifier level @ '' '' @ typePrompt\<rparr>,
                     st\<lparr>questionIndex := questionIndex st + 1\<rparr>)))"

record adaptive_data =
  ad_currentLevel :: "int option"
  ad_windowSize :: "int option"
  ad_scoreHistory :: "rat list option"
  ad_levelHistory :: "int list option"
  ad_questionIndex :: "nat option"
  ad_followUpPending :: "bool option"
  ad_followUpContext :: "follow_up_context option"
  ad_adaptationLog :: "adaptation_entry list option"

definition serialize :: "adaptive_state \<Rightarrow> adaptive_data" where
  "serialize st =
     \<lparr>ad_currentLevel = Some (currentLevel st), ad_windowSize = Some (windowSize st),
      ad_scoreHistory = Some (scoreHistory st), ad_levelHistory = Some (levelHistory st),
      ad_questionIndex = Some (questionIndex st), ad_followUpPending = Some (followUpPending st),
      ad_followUpContext = followUpContext st, ad_adaptationLog = Some (adaptationLog st)\<rparr>"

definition fromSerialized :: "adaptive_data \<Rightarrow> adaptive_state" where
  "fromSerialized d =
     (new_manager (ad_currentLevel d) (ad_windowSize d))
       \<lparr>scoreHistory := js_or_list (ad_scoreHistory d),
        levelHistory := js_or_list (ad_levelHistory d),
        questionIndex := js_or (ad_questionIndex d) 0,
        followUpPending := (case ad_followUpPending d of None \<Rightarrow> False | Some b \<Rightarrow> b),
        followUpContext := ad_followUpContext d,
        adaptationLog := js_or_list (ad_adaptationLog d)\<rparr>"

datatype manager_call =
    RecordScore nat rat
  | ShouldFollowUp rat string string
  | GetNextQuestionConfig

fun call_manager :: "manager_call \<Rightarrow> adaptive_state \<Rightarrow> js_error + adaptive_state" where
  "call_manager (RecordScore now score) st = map_sum id snd (recordScore now score st)"
| "call_manager (ShouldFollowUp score q a) st = Inr (snd (shouldFollowUp score q a st))"
| "call_manager GetNextQuestionConfig st = map_sum id snd (getNextQuestionConfig st)"

fun run_manager :: "manager_call list \<Rightarrow> adaptive_state \<Rightarrow> js_error + adaptive_state" where
  \<comment> \<open>a sequence of method calls on one manager; an exception ends it\<close>
  "run_manager [] st = Inr st"
| "run_manager (c # cs) st =
     (case call_manager c st of Inl e \<Rightarrow> Inl e | Inr st' \<Rightarrow> run_manager cs st')"



subsection \<open>The adaptation rule as the specification words it\<close>

text \<open>
  \<open>spec_rolling_average\<close> and \<open>spec_level_rule\<close> follow the specification: the mean of
  the last \<open>w\<close> recorded scores (their sum in order, divided by their number, as JavaScript
  evaluates it), and the level-specific thresholds (Easy: up at 7 or more,
  never down; Medium: up at 8 or more, down at 4 or less; Hard: down at 5 or less, never up),
  applied once two scores are recorded. \<open>record_scores\<close> is a run of \<open>recordScore\<close>
  calls on one manager, returning the state after each call.
\<close>

definition spec_rolling_average :: "nat \<Rightarrow> rat list \<Rightarrow> rat" where
  "spec_rolling_average w xs = ddiv (dsum (drop (length xs - w) xs)) (of_nat (min w (length xs)))"

definition spec_level_rule :: "int \<Rightarrow> nat \<Rightarrow> rat \<Rightarrow> int" where
  "spec_level_rule l n avg =
     (if n < 2 then l
      else if l = 1 then (if avg \<ge> 7 then 2 else 1)
      else if l = 2 then (if avg \<ge> 8 then 3 else if avg \<le> 4 then 1 else 2)
      else (if avg \<le> 5 then 2 else 3))"

definition recorded_level :: "adaptive_state \<Rightarrow> rat \<Rightarrow> level_config \<Rightarrow> int" where
  "recorded_level st score config =
     (if length (scoreHistory st @ [score]) \<ge> 2
      then next_level config (currentLevel st)
             (daverage (slice_from (- windowSize st) (scoreHistory st @ [score])))
      else currentLevel st)"

fun record_scores :: "(nat \<times> rat) list \<Rightarrow> adaptive_state \<Rightarrow> js_error + adaptive_state list" where
  "record_scores [] st = Inr []"
| "record_scores (c # cs) st =
     (case recordScore (fst c) (snd c) st of
        Inl e \<Rightarrow> Inl e
      | Inr r \<Rightarrow> (case record_scores cs (snd r) of
                    Inl e \<Rightarrow> Inl e
                  | Inr sts \<Rightarrow> Inr (snd r # sts)))"

definition adapts_by_rule :: "adaptive_state \<Rightarrow> adaptive_state \<Rightarrow> bool" where
  "adapts_by_rule before after \<longleftrightarrow>
     currentLevel after \<in> {1,2,3} \<and>
     \<bar>currentLevel after - currentLevel before\<bar> \<le> 1 \<and>
     (currentLevel after \<noteq> currentLevel before \<longrightarrow> 2 \<le> length (scoreHistory after)) \<and>
     windowSize after = windowSize before \<and>
     currentLevel after =
       spec_level_rule (currentLevel before) (length (scoreHistory after))
         (spec_rolling_average (nat (windowSize before)) (scoreHistory after))"

fun is_record :: "manager_call \<Rightarrow> bool" where
  "is_record (RecordScore now score) = True"
| "is_record c = False"

definition history_ok :: "int \<Rightarrow> adaptive_state \<Rightarrow> bool" where
  "history_ok L st \<longleftrightarrow>
     length (levelHistory st) = length (scoreHistory st) + 1 \<and>
     hd (levelHistory st) = L \<and> last (levelHistory st) = currentLevel st"

definition in_range :: "rat \<Rightarrow> bool" where
  \<comment> \<open>a score in [0,10]\<close>
  "in_range s \<longleftrightarrow> 0 \<le> s \<and> s \<le> 10"


section \<open>String primitives\<close>

definition is_space :: "char \<Rightarrow> bool" where
  \<comment> \<open>\<open>\s\<close> and the characters \<open>trim\<close> removes, below 256: space, tab, line feed, vertical
      tab, form feed, carriage return, no-break space\<close>
  "is_space c \<longleftrightarrow>
     c \<in> set [CHR '' '', CHR 0x09, CHR 0x0A, CHR 0x0B, CHR 0x0C, CHR 0x0D, CHR 0xA0]"

definition is_digit :: "char \<Rightarrow> bool" where
  \<comment> \<open>\<open>\d\<close>\<close>
  "is_digit c \<longleftrightarrow> c \<in> set ''0123456789''"

definition is_word_char :: "char \<Rightarrow> bool" where
  \<comment> \<open>\<open>\w\<close>: a letter, a digit or the underscore\<close>
  "is_word_char c \<longleftrightarrow>
     c \<in> set ''abcdefghijklmnopqrstuvwxyzABCDEFGHIJKLMNOPQRSTUVWXYZ0123456789_''"

definition lower_char :: "char \<Rightarrow> char" where
  \<comment> \<open>A..Z and the Latin-1 capitals U+00C0..U+00DE (the multiplication sign U+00D7 apart)
      have their lower case 32 code units higher\<close>
  "lower_char c =
     (let n = (of_char c :: nat)
      in if (65 \<le> n \<and> n \<le> 90) \<or> (192 \<le> n \<and> n \<le> 214) \<or> (216 \<le> n \<and> n \<le> 222)
         then char_of (n + 32) else c)"

definition toLowerCase :: "string \<Rightarrow> string" where
  "toLowerCase s = map lower_char s"

definition starts_with :: "string \<Rightarrow> string \<Rightarrow> bool" where
  "starts_with s p \<longleftrightarrow> take (length p) s = p"

fun str_includes :: "string \<Rightarrow> string \<Rightarrow> bool" where
  \<comment> \<open>\<open>s.includes(p)\<close>: \<open>p\<close> occurs in \<open>s\<close> as a contiguous substring\<close>
  "str_includes [] p = (p = [])"
| "str_includes (c # cs) p = (starts_with (c # cs) p \<or> str_includes cs p)"

definition trim :: "string \<Rightarrow> string" where
  "trim s = rev (dropWhile is_space (rev (dropWhile is_space s)))"

function split_runs :: "(char \<Rightarrow> bool) \<Rightarrow> string \<Rightarrow> string list" where
  \<comment> \<open>\<open>s.split(/[sep]+/)\<close>: the pieces between the maximal runs of separator characters,
      the empty pieces at the two ends included\<close>
  "split_runs sep s =
     (case dropWhile (\<lambda>c. \<not> sep c) s of
        [] \<Rightarrow> [s]
      | d # rest \<Rightarrow> takeWhile (\<lambda>c. \<not> sep c) s # split_runs sep (dropWhile sep rest))"
  by pat_completeness auto
termination
proof (relation "measure (\<lambda>(sep, s). length s)")
  show "wf (measure (\<lambda>(sep, s). length s))" by simp
next
  fix sep :: "char \<Rightarrow> bool" and s :: string and d rest
  assume a: "dropWhile (\<lambda>c. \<not> sep c) s = d # rest"
  have "length (dropWhile sep rest) \<le> length rest"
    by (rule length_dropWhile_le)
  also have "length rest < length (dropWhile (\<lambda>c. \<not> sep c) s)"
    by (simp add: a)
  also have "\<dots> \<le> length s"
    by (rule length_dropWhile_le)
  finally show "((sep, dropWhile sep rest), (sep, s)) \<in> measure (\<lambda>(sep, s). length s)"
    by simp
qed

definition words_of :: "string \<Rightarrow> string list" where
  \<comment> \<open>\<open>answer.trim().split(/\s+/).filter(w => w.length > 0)\<close>\<close>
  "words_of answer = filter (\<lambda>w. length w > 0) (split_runs is_space (trim answer))"

definition word_boundary :: "char option \<Rightarrow> char option \<Rightarrow> bool" where
  \<comment> \<open>\<open>\b\<close> between two neighbouring positions; \<open>None\<close> is an end of the string\<close>
  "word_boundary a b \<longleftrightarrow>
     (case a of None \<Rightarrow> False | Some c \<Rightarrow> is_word_char c)
       \<noteq> (case b of None \<Rightarrow> False | Some c \<Rightarrow> is_word_char c)"

definition head_option :: "string \<Rightarrow> char option" where
  "head_option s = (case s of [] \<Rightarrow> None | c # cs \<Rightarrow> Some c)"

definition bounded_match_here :: "string \<Rightarrow> char option \<Rightarrow> string \<Rightarrow> bool" where
  \<comment> \<open>\<open>\bpat\b\<close> matches at the start of \<open>s\<close>, the character before being \<open>prev\<close>\<close>
  "bounded_match_here pat prev s \<longleftrightarrow>
     starts_with s pat \<and>
     word_boundary prev (head_option s) \<and>
     word_boundary (if pat = [] then prev else Some (last pat))
                   (head_option (drop (length pat) s))"

fun bounded_search :: "string \<Rightarrow> char option \<Rightarrow> string \<Rightarrow> bool" where
  "bounded_search pat prev [] = bounded_match_here pat prev []"
| "bounded_search pat prev (c # cs) =
     (bounded_match_here pat prev (c # cs) \<or> bounded_search pat (Some c) cs)"

definition test_whole_word :: "string \<Rightarrow> string \<Rightarrow> bool" where
  \<comment> \<open>\<open>new RegExp(`\\b${pat}\\b`, 'gi').test(s)\<close> for a pattern of letters and spaces and a
      lower-case \<open>s\<close>\<close>
  "test_whole_word pat s = bounded_search pat None s"

definition uniq :: "'a list \<Rightarrow> 'a list" where
  \<comment> \<open>\<open>[...new Set(xs)]\<close>: the first occurrence of each element, in order\<close>
  "uniq xs = rev (remdups (rev xs))"

definition lookup_list :: "('k \<times> 'v list) list \<Rightarrow> 'k \<Rightarrow> 'v list" where
  "lookup_list table k = (case map_of table k of None \<Rightarrow> [] | Some v \<Rightarrow> v)"


section \<open>Evaluation engine\<close>

definition TECHNICAL_KEYWORDS :: "(string \<times> string list) list" where
  "TECHNICAL_KEYWORDS =
     [(''javascript'',
        [''closure'', ''prototype'', ''async'', ''await'', ''promise'', ''callback'',
         ''event loop'', ''hoisting'', ''scope'', ''this'', ''arrow function'',
         ''destructuring'', ''spread'', ''rest'', ''module'', ''import'', ''export'',
         ''class'', ''inheritance'', ''dom'', ''api'', ''fetch'', ''json'', ''typescript'']),
      (''react'',
        [''component'', ''state'', ''props'', ''hook'', ''useEffect'', ''useState'',
         ''virtual dom'', ''jsx'', ''render'', ''lifecycle'', ''context'', ''redux'', ''memo'',
         ''ref'', ''key'', ''fragment'', ''portal'', ''suspense'', ''lazy'']),
      (''python'',
        [''decorator'', ''generator'', ''list comprehension'', ''lambda'', ''class'',
         ''inheritance'', ''exception'', ''module'', ''package'', ''pip'',
         ''virtual environment'', ''dict'', ''tuple'', ''set'', ''async'', ''await'',
         ''type hint'']),
      (''database'',
        [''sql'', ''nosql'', ''index'', ''query'', ''join'', ''normalization'',
         ''transaction'', ''acid'', ''schema'', ''migration'', ''orm'', ''primary key'',
         ''foreign key'', ''aggregate'', ''stored procedure'']),
      (''system_design'',
        [''scalability'', ''load balancer'', ''caching'', ''microservice'', ''api gateway'',
         ''database sharding'', ''replication'', ''cdn'', ''message queue'', ''rate limiting'',
         ''circuit breaker'', ''consistency'', ''availability'', ''partition tolerance'']),
      (''general'',
        [''algorithm'', ''data structure'', ''complexity'', ''testing'', ''debugging'',
         ''version control'', ''git'', ''ci/cd'', ''agile'', ''scrum'', ''code review'',
         ''documentation'', ''deployment'', ''monitoring'', ''security'']),
      (''behavioral'',
        [''team'', ''leadership'', ''conflict'', ''challenge'', ''deadline'',
         ''communication'', ''feedback'', ''collaboration'', ''priority'', ''decision'',
         ''mistake'', ''learn'', ''improve'', ''initiative'', ''mentor''])]"

definition HEDGING_PHRASES :: "string list" where
  "HEDGING_PHRASES =
     [''i think'', ''maybe'', ''probably'', ''i guess'', ''not sure'', ''i believe'',
      ''kind of'', ''sort of'', ''um'', ''uh'', ''like'', ''you know'', ''basically'',
      ''i don't know'', ''i'm not certain'', ''it might be'', ''perhaps'', ''i suppose'',
      ''something like'', ''more or less'']"

definition FILLER_WORDS :: "string list" where
  "FILLER_WORDS =
     [''um'', ''uh'', ''like'', ''you know'', ''basically'', ''actually'', ''literally'',
      ''honestly'', ''right'', ''so yeah'']"

definition STAR_KEYWORDS :: "(string \<times> string list) list" where
  "STAR_KEYWORDS =
     [(''situation'',
        [''situation'', ''context'', ''background'', ''working on'', ''project'', ''task'',
         ''assigned'']),
      (''task'',
        [''task'', ''responsible'', ''goal'', ''objective'', ''needed to'', ''had to'',
         ''required'']),
      (''action'',
        [''action'', ''implemented'', ''developed'', ''created'', ''built'', ''designed'',
         ''led'', ''initiated'', ''proposed'', ''solved'']),
      (''result'',
        [''result'', ''outcome'', ''achieved'', ''improved'', ''reduced'', ''increased'',
         ''delivered'', ''successfully'', ''impact'', ''metrics''])]"

definition topicIndicators :: "(string \<times> string list) list" where
  "topicIndicators =
     [(''javascript'',
        [''javascript'', ''js'', ''node'', ''typescript'', ''es6'', ''ecmascript'']),
      (''react'',
        [''react'', ''component'', ''hook'', ''jsx'', ''redux'', ''next.js'', ''frontend'']),
      (''python'',
        [''python'', ''django'', ''flask'', ''pip'', ''pandas'', ''numpy'']),
      (''database'',
        [''database'', ''sql'', ''nosql'', ''mongo'', ''postgres'', ''mysql'', ''query'',
         ''data model'']),
      (''system_design'',
        [''system design'', ''architecture'', ''scalab'', ''microservice'', ''distributed'',
         ''design a'']),
      (''behavioral'',
        [''tell me about'', ''describe a time'', ''how do you handle'', ''experience'',
         ''challenge'', ''team'', ''conflict'', ''why do you'', ''what are your'',
         ''strength'', ''weakness''])]"

definition assertiveIndicators :: "string list" where
  "assertiveIndicators =
     [''i am'', ''i have'', ''i did'', ''i will'', ''i can'', ''i know'', ''definitely'',
      ''certainly'', ''absolutely'', ''clearly'', ''my experience'', ''i successfully'',
      ''i led'', ''i built'', ''i designed'']"


definition detectRelevantTopics :: "string \<Rightarrow> string list" where
  "detectRelevantTopics question =
     (let topics = map fst (filter (\<lambda>(topic, indicators). \<exists>ind \<in> set indicators. str_includes question ind)
                                   topicIndicators)
      in if length topics = 0 then [''general''] else topics)"

record keyword_analysis =
  kw_score :: int
  kw_matchedKeywords :: "string list"
  kw_totalRelevant :: nat
  kw_matchCount :: nat
  kw_topics :: "string list"

definition evaluateKeywordCoverage :: "string \<Rightarrow> string \<Rightarrow> keyword_analysis" where
  "evaluateKeywordCoverage answer question =
     (let lowerAnswer = toLowerCase answer;
          lowerQuestion = toLowerCase question;
          relevantTopics = detectRelevantTopics lowerQuestion;
          fromTopics = concat (map (lookup_list TECHNICAL_KEYWORDS) relevantTopics);
          withGeneral = (if ''general'' \<notin> set relevantTopics
                         then fromTopics @ lookup_list TECHNICAL_KEYWORDS ''general'' else fromTopics);
          withBehavioral = (if ''behavioral'' \<notin> set relevantTopics
                            then withGeneral @ lookup_list TECHNICAL_KEYWORDS ''behavioral'' else withGeneral);
          relevantKeywords = uniq withBehavioral;
          matchedKeywords = filter (\<lambda>kw. str_includes lowerAnswer kw) relevantKeywords;
          coverageRatio = (if length relevantKeywords > 0
                           then ddiv (of_nat (length matchedKeywords))
                                     (of_nat (min (length relevantKeywords) 8))
                           else (0::rat));
          coverageScore = min 10 (js_round (dmul coverageRatio 10))
      in \<lparr>kw_score = coverageScore, kw_matchedKeywords = matchedKeywords,
          kw_totalRelevant = length relevantKeywords, kw_matchCount = length matchedKeywords,
          kw_topics = relevantTopics\<rparr>)"

record star_analysis =
  star_score :: int
  star_components :: "(string \<times> bool) list"
  star_coveredCount :: nat
  star_totalComponents :: nat

definition evaluateSTARMethod :: "string \<Rightarrow> star_analysis" where
  "evaluateSTARMethod answer =
     (let lowerAnswer = toLowerCase answer;
          components = map (\<lambda>(component, keywords).
                              (component, \<exists>kw \<in> set keywords. str_includes lowerAnswer kw)) STAR_KEYWORDS;
          coveredCount = length (filter snd components)
      in \<lparr>star_score = js_round (dmul (ddiv (of_nat coveredCount) 4) 10), star_components = components,
          star_coveredCount = coveredCount, star_totalComponents = 4\<rparr>)"

record completeness_analysis =
  cp_score :: int
  cp_wordCount :: nat
  cp_sentenceCount :: nat
  cp_lengthScore :: int
  cp_structureScore :: int
  cp_specificityScore :: int
  cp_starCoverage :: star_analysis
  cp_hasExamples :: bool
  cp_hasNumbers :: bool

definition evaluateCompleteness :: "string \<Rightarrow> completeness_analysis" where
  "evaluateCompleteness answer =
     (let wordCount = length (words_of answer);
          sentences = filter (\<lambda>s. length (trim s) > 0) (split_runs (\<lambda>c. c \<in> set ''.!?'') answer);
          sentenceCount = length sentences;
          lengthScore = (if wordCount < 10 then 2
                         else if wordCount < 20 then 4
                         else if wordCount < 30 then 6
                         else if wordCount \<le> 120 then 9
                         else if wordCount \<le> 200 then 8
                         else (6::int));
          structureScore = (if sentenceCount \<ge> 3 then 10
                            else if sentenceCount \<ge> 2 then 7
                            else (4::int));
          hasNumbers = (\<exists>c \<in> set answer. is_digit c);
          hasExamples = (\<exists>p \<in> set [''for example'', ''for instance'', ''such as'', ''like when'', ''one time''].
                           str_includes (toLowerCase answer) p);
          hasSpecifics = (\<exists>p \<in> set [''specifically'', ''in particular'', ''the key'', ''the main'',
                                        ''because'', ''the reason''].
                           str_includes (toLowerCase answer) p);
          specificityScore = min 10 ((4::int) + (if hasNumbers then 2 else 0)
                                      + (if hasExamples then 2 else 0) + (if hasSpecifics then 2 else 0));
          starCoverage = evaluateSTARMethod answer;
          overallScore = js_round
             (dadd (dadd (dadd (dmul (of_int lengthScore) (dlit (3 / 10)))
                               (dmul (of_int structureScore) (dlit (25 / 100))))
                         (dmul (of_int specificityScore) (dlit (25 / 100))))
                   (dmul (of_int (star_score starCoverage)) (dlit (2 / 10))))
      in \<lparr>cp_score = min 10 overallScore, cp_wordCount = wordCount, cp_sentenceCount = sentenceCount,
          cp_lengthScore = lengthScore, cp_structureScore = structureScore,
          cp_specificityScore = specificityScore, cp_starCoverage = starCoverage,
          cp_hasExamples = hasExamples, cp_hasNumbers = hasNumbers\<rparr>)"

record confidence_analysis =
  cf_score :: int
  cf_hedgingPhrases :: "string list"
  cf_fillerWords :: "string list"
  cf_assertiveLanguage :: "string list"
  cf_hedgingDensity :: rat
  cf_fillerDensity :: rat

definition evaluateConfidence :: "string \<Rightarrow> confidence_analysis" where
  "evaluateConfidence answer =
     (let lowerAnswer = toLowerCase answer;
          wordCount = length (split_runs is_space lowerAnswer);
          hedgingMatches = filter (\<lambda>phrase. str_includes lowerAnswer phrase) HEDGING_PHRASES;
          hedgingCount = length hedgingMatches;
          fillerMatches = filter (\<lambda>filler. test_whole_word filler lowerAnswer) FILLER_WORDS;
          fillerCount = length fillerMatches;
          hedgingDensity = (if wordCount > 0
                            then dmul (ddiv (of_nat hedgingCount) (of_nat wordCount)) 100 else (0::rat));
          fillerDensity = (if wordCount > 0
                           then dmul (ddiv (of_nat fillerCount) (of_nat wordCount)) 100 else (0::rat));
          assertiveMatches = filter (\<lambda>phrase. str_includes lowerAnswer phrase) assertiveIndicators;
          confidenceScore =
            dadd (dsub (dsub 7 (min 4 (dmul (of_nat hedgingCount) (dlit (15 / 10)))))
                       (min 2 (dmul (of_nat fillerCount) (dlit (5 / 10)))))
                 (min 3 (dmul (of_nat (length assertiveMatches)) 1))
      in \<lparr>cf_score = max 1 (min 10 (js_round confidenceScore)),
          cf_hedgingPhrases = hedgingMatches, cf_fillerWords = fillerMatches,
          cf_assertiveLanguage = assertiveMatches,
          cf_hedgingDensity = dround1 hedgingDensity, cf_fillerDensity = dround1 fillerDensity\<rparr>)"

definition getDimensionRating :: "rat \<Rightarrow> string" where
  "getDimensionRating score =
     (if score \<ge> 8 then ''excellent''
      else if score \<ge> 6 then ''good''
      else if score \<ge> 4 then ''average''
      else ''needs_improvement'')"

definition identifyStrengths ::
    "keyword_analysis \<Rightarrow> completeness_analysis \<Rightarrow> confidence_analysis \<Rightarrow> rat \<Rightarrow> string list" where
  "identifyStrengths keywords completeness confidence aiScore =
     (if aiScore \<ge> 7 then [''Strong technical understanding''] else [])
     @ (if kw_score keywords \<ge> 7 then [''Good use of technical terminology''] else [])
     @ (if cp_score completeness \<ge> 7 then [''Well-structured and detailed response''] else [])
     @ (if cp_hasExamples completeness then [''Provided concrete examples''] else [])
     @ (if cp_hasNumbers completeness then [''Used quantifiable data points''] else [])
     @ (if cf_score confidence \<ge> 7 then [''Confident and assertive communication''] else [])
     @ (if star_coveredCount (cp_starCoverage completeness) \<ge> 3 then [''Good STAR method structure''] else [])
     @ (if length (cf_assertiveLanguage confidence) \<ge> 2 then [''Assertive language patterns''] else [])"

definition identifyWeaknesses ::
    "keyword_analysis \<Rightarrow> completeness_analysis \<Rightarrow> confidence_analysis \<Rightarrow> rat \<Rightarrow> string list" where
  "identifyWeaknesses keywords completeness confidence aiScore =
     (if aiScore < 5 then [''Answer lacks technical accuracy''] else [])
     @ (if kw_score keywords < 4 then [''Missing key technical terms''] else [])
     @ (if cp_wordCount completeness < 20 then [''Response is too brief''] else [])
     @ (if cp_wordCount completeness > 200 then [''Response is too verbose''] else [])
     @ (if \<not> cp_hasExamples completeness then [''No concrete examples provided''] else [])
     @ (if cp_structureScore completeness < 5 then [''Answer lacks structure''] else [])
     @ (if cf_score confidence < 5 then [''Sounds uncertain or hesitant''] else [])
     @ (if length (cf_hedgingPhrases confidence) > 3 then [''Excessive hedging language''] else [])
     @ (if length (cf_fillerWords confidence) > 2 then [''Too many filler words''] else [])"

definition generateImprovementTips ::
    "keyword_analysis \<Rightarrow> completeness_analysis \<Rightarrow> confidence_analysis \<Rightarrow> rat \<Rightarrow> string list" where
  "generateImprovementTips keywords completeness confidence aiScore =
     (if kw_score keywords < 5 then [''Use more specific technical terms relevant to the topic''] else [])
     @ (if cp_wordCount completeness < 20 then [''Elaborate more - aim for 30-60 words per response''] else [])
     @ (if \<not> cp_hasExamples completeness
        then [''Include specific examples: '' @ dq @ ''For instance...'' @ dq @ '' or '' @ dq
              @ ''In my experience...'' @ dq] else [])
     @ (if \<not> cp_hasNumbers completeness
        then [''Add metrics when possible: '' @ dq @ ''reduced load time by 40%'' @ dq] else [])
     @ (if cf_score confidence < 5
        then [''Replace '' @ dq @ ''I think'' @ dq @ '' and '' @ dq @ ''maybe'' @ dq @ '' with '' @ dq
              @ ''I know'' @ dq @ '' and '' @ dq @ ''I have experience with'' @ dq] else [])
     @ (if length (cf_fillerWords confidence) > 2
        then [''Reduce filler words (um, uh, like) - pause instead''] else [])
     @ (if star_coveredCount (cp_starCoverage completeness) < 2
        then [''Structure behavioral answers using STAR: Situation, Task, Action, Result''] else [])
     @ (if cp_structureScore completeness < 5
        then [''Use multiple sentences to structure your answer clearly''] else [])
     @ (if aiScore < 5
        then [''Review core concepts in this topic area before the next attempt''] else [])"

record answer_evaluation =
  compositeScore :: int
  dim_aiJudgment :: rat
  dim_aiJudgment_rating :: string
  dim_keywordCoverage :: keyword_analysis
  dim_keywordCoverage_rating :: string
  dim_completeness :: completeness_analysis
  dim_completeness_rating :: string
  dim_confidence :: confidence_analysis
  dim_confidence_rating :: string
  ev_strengths :: "string list"
  ev_weaknesses :: "string list"
  ev_tips :: "string list"

definition weighted_sum :: "rat \<Rightarrow> rat \<Rightarrow> rat \<Rightarrow> rat \<Rightarrow> rat" where
  \<comment> \<open>the argument of \<open>Math.round\<close> in \<open>evaluateAnswer\<close>\<close>
  "weighted_sum ai kw cp cf =
     dadd (dadd (dadd (dmul ai (dlit (35 / 100))) (dmul kw (dlit (20 / 100))))
                (dmul cp (dlit (25 / 100))))
          (dmul cf (dlit (20 / 100)))"

definition evaluateAnswer :: "string \<Rightarrow> string \<Rightarrow> rat \<Rightarrow> answer_evaluation" where
  "evaluateAnswer answer question aiScore =
     (let keywordAnalysis = evaluateKeywordCoverage answer question;
          completenessAnalysis = evaluateCompleteness answer;
          confidenceAnalysis = evaluateConfidence answer;
          composite = js_round (weighted_sum aiScore (of_int (kw_score keywordAnalysis))
                                  (of_int (cp_score completenessAnalysis))
                                  (of_int (cf_score confidenceAnalysis)))
      in \<lparr>compositeScore = min 10 composite,
          dim_aiJudgment = aiScore, dim_aiJudgment_rating = getDimensionRating aiScore,
          dim_keywordCoverage = keywordAnalysis,
          dim_keywordCoverage_rating = getDimensionRating (of_int (kw_score keywordAnalysis)),
          dim_completeness = completenessAnalysis,
          dim_completeness_rating = getDimensionRating (of_int (cp_score completenessAnalysis)),
          dim_confidence = confidenceAnalysis,
          dim_confidence_rating = getDimensionRating (of_int (cf_score confidenceAnalysis)),
          ev_strengths = identifyStrengths keywordAnalysis completenessAnalysis confidenceAnalysis aiScore,
          ev_weaknesses = identifyWeaknesses keywordAnalysis completenessAnalysis confidenceAnalysis aiScore,
          ev_tips = generateImprovementTips keywordAnalysis completenessAnalysis confidenceAnalysis aiScore\<rparr>)"

definition parsed_ai_score :: "int \<Rightarrow> rat" where
  \<comment> \<open>the server's only call site: \<open>aiScore = Math.max(0, Math.min(10, parseInt(scoreMatch[1], 10)))\<close>\<close>
  "parsed_ai_score n = of_int (max 0 (min 10 n))"

subsection \<open>The composite as the specification words it\<close>

definition clamp10 :: "rat \<Rightarrow> rat" where
  "clamp10 x = max 0 (min 10 x)"

definition spec_composite :: "rat \<Rightarrow> rat \<Rightarrow> rat \<Rightarrow> rat \<Rightarrow> int" where
  \<comment> \<open>\<open>round(0.35 * ai + 0.20 * kw + 0.25 * cp + 0.20 * cf)\<close> as JavaScript evaluates it, every
      dimension clamped to [0,10] before weighting, the rounded sum clamped to [0,10]\<close>
  "spec_composite ai kw cp cf =
     max 0 (min 10 (js_round
        (dadd (dadd (dadd (dmul (dlit (35 / 100)) (clamp10 ai)) (dmul (dlit (20 / 100)) (clamp10 kw)))
                    (dmul (dlit (25 / 100)) (clamp10 cp)))
              (dmul (dlit (20 / 100)) (clamp10 cf)))))"


section \<open>Anti-cheat module\<close>

text \<open>
  \<open>Date.now()\<close> is an argument (\<open>now\<close>, in milliseconds). The human-readable \<open>detail\<close>
  text of a flag is a formatting of the numbers below and is left out of the flag record.
\<close>

definition MIN_RESPONSE_TIME_SEC :: rat where "MIN_RESPONSE_TIME_SEC = 3"
definition MAX_NATURAL_WPM :: rat where "MAX_NATURAL_WPM = 200"
definition COMPLEXITY_SPIKE_THRESHOLD :: rat where "COMPLEXITY_SPIKE_THRESHOLD = 25 / 10"
definition MIN_ANSWERS_FOR_ANALYSIS :: nat where "MIN_ANSWERS_FOR_ANALYSIS = 3"
definition LOW_SUSPICION :: int where "LOW_SUSPICION = 20"
definition MEDIUM_SUSPICION :: int where "MEDIUM_SUSPICION = 40"
definition HIGH_SUSPICION :: int where "HIGH_SUSPICION = 60"

record cheat_flag =
  fl_type :: string
  fl_severity :: string
  fl_points :: int

record anticheat_state =
  responseTimings :: "rat list"
  responseLengths :: "nat list"
  vocabularyComplexities :: "rat list"
  flags :: "cheat_flag list"
  lastQuestionTime :: "int option"
  overallSuspicionScore :: int

definition new_monitor :: anticheat_state where
  "new_monitor = \<lparr>responseTimings = [], responseLengths = [], vocabularyComplexities = [],
                   flags = [], lastQuestionTime = None, overallSuspicionScore = 0\<rparr>"

definition questionAsked :: "int \<Rightarrow> anticheat_state \<Rightarrow> anticheat_state" where
  "questionAsked now st = st\<lparr>lastQuestionTime := Some now\<rparr>"

fun trigrams :: "string list \<Rightarrow> string list" where
  \<comment> \<open>\<open>words.slice(i, i + 3).join(' ')\<close> for \<open>i\<close> from 0 below \<open>words.length - 2\<close>\<close>
  "trigrams (a # b # c # rest) = (a @ '' '' @ b @ '' '' @ c) # trigrams (b # c # rest)"
| "trigrams ws = []"

definition detectRepetitivePatterns :: "string \<Rightarrow> string list" where
  "detectRepetitivePatterns text =
     (let ws = split_runs is_space (toLowerCase text);
          tris = trigrams ws
      in filter (\<lambda>phrase. count_list tris phrase > 1) (uniq tris))"

definition response_time_sec :: "int \<Rightarrow> int option \<Rightarrow> rat option" where
  \<comment> \<open>the first two lines of \<open>analyzeAnswer\<close>; a stamp of 0 and an elapsed time of 0 are
      falsy and give \<open>null\<close>\<close>
  "response_time_sec now lastQ =
     (let responseTimeMs = (case lastQ of None \<Rightarrow> None
                             | Some t \<Rightarrow> if t = 0 then None else Some (now - t))
      in case responseTimeMs of None \<Rightarrow> None
         | Some ms \<Rightarrow> if ms = 0 then None else Some (ddiv (of_int ms) 1000))"

definition check_fast_response :: "rat option \<Rightarrow> nat \<Rightarrow> cheat_flag list" where
  \<comment> \<open>Check 1\<close>
  "check_fast_response responseTimeSec wordCount =
     (if responseTimeSec \<noteq> None \<and> the responseTimeSec < MIN_RESPONSE_TIME_SEC \<and> wordCount > 20
      then [\<lparr>fl_type = ''fast_response'', fl_severity = ''medium'', fl_points = 15\<rparr>] else [])"

definition check_high_wpm :: "rat option \<Rightarrow> nat \<Rightarrow> cheat_flag list" where
  \<comment> \<open>Check 2\<close>
  "check_high_wpm responseTimeSec wordCount =
     (if responseTimeSec \<noteq> None \<and> the responseTimeSec \<noteq> 0 \<and> the responseTimeSec > 0
      then (let wpm = dmul (ddiv (of_nat wordCount) (the responseTimeSec)) 60
            in if wpm > MAX_NATURAL_WPM \<and> wordCount > 15
               then [\<lparr>fl_type = ''high_wpm'', fl_severity = ''high'', fl_points = 25\<rparr>] else [])
      else [])"

definition check_length_spike :: "nat list \<Rightarrow> nat \<Rightarrow> cheat_flag list" where
  \<comment> \<open>Check 3; \<open>lengths\<close> is \<open>this.responseLengths\<close> after the push of \<open>wordCount\<close>\<close>
  "check_length_spike lengths wordCount =
     (if length lengths \<ge> MIN_ANSWERS_FOR_ANALYSIS
      then (let previousLengths = butlast lengths;
                avgPrevLength = ddiv (of_nat (sum_list previousLengths)) (of_nat (length previousLengths))
            in if avgPrevLength > 0 \<and> of_nat wordCount > dmul avgPrevLength 3 \<and> wordCount > 50
               then [\<lparr>fl_type = ''length_spike'', fl_severity = ''medium'', fl_points = 15\<rparr>] else [])
      else [])"

definition check_complexity_spike :: "rat list \<Rightarrow> rat \<Rightarrow> cheat_flag list" where
  \<comment> \<open>Check 4; \<open>complexities\<close> is \<open>this.vocabularyComplexities\<close> after the push\<close>
  "check_complexity_spike complexities complexityRatio =
     (if length complexities \<ge> MIN_ANSWERS_FOR_ANALYSIS
      then (let previousComplexities = butlast complexities;
                avgComplexity = ddiv (dsum previousComplexities) (of_nat (length previousComplexities))
            in if avgComplexity > 0 \<and> complexityRatio > dmul avgComplexity COMPLEXITY_SPIKE_THRESHOLD
               then [\<lparr>fl_type = ''complexity_spike'', fl_severity = ''low'', fl_points = 10\<rparr>] else [])
      else [])"

definition check_score_timing :: "rat option \<Rightarrow> rat \<Rightarrow> nat \<Rightarrow> cheat_flag list" where
  \<comment> \<open>Check 5\<close>
  "check_score_timing responseTimeSec score wordCount =
     (if responseTimeSec \<noteq> None \<and> the responseTimeSec < 5 \<and> score \<ge> 9 \<and> wordCount > 30
      then [\<lparr>fl_type = ''score_timing_mismatch'', fl_severity = ''high'', fl_points = 20\<rparr>] else [])"

definition check_repetitive :: "string \<Rightarrow> cheat_flag list" where
  \<comment> \<open>Check 6\<close>
  "check_repetitive answer =
     (if length (detectRepetitivePatterns answer) > 2
      then [\<lparr>fl_type = ''repetitive_pattern'', fl_severity = ''low'', fl_points = 5\<rparr>] else [])"

definition getSuspicionLevel :: "int \<Rightarrow> string" where
  "getSuspicionLevel s =
     (if s \<ge> HIGH_SUSPICION then ''high''
      else if s \<ge> MEDIUM_SUSPICION then ''medium''
      else if s \<ge> LOW_SUSPICION then ''low''
      else ''clean'')"

record answer_metrics =
  am_responseTimeSec :: "rat option"
  am_wordCount :: nat
  am_avgWordLength :: rat
  am_complexityRatio :: rat

record analysis_result =
  ar_flags :: "cheat_flag list"
  ar_answerSuspicionPoints :: int
  ar_overallSuspicionScore :: int
  ar_suspicionLevel :: string
  ar_metrics :: answer_metrics

definition analyzeAnswer :: "int \<Rightarrow> string \<Rightarrow> rat \<Rightarrow> anticheat_state \<Rightarrow> analysis_result \<times> anticheat_state" where
  "analyzeAnswer now answer score st =
     (let responseTimeSec = response_time_sec now (lastQuestionTime st);
          ws = words_of answer;
          wordCount = length ws;
          avgWordLength = (if length ws > 0
                           then ddiv (of_nat (sum_list (map length ws))) (of_nat (length ws)) else 0);
          longWords = length (filter (\<lambda>w. length w > 6) ws);
          complexityRatio = (if wordCount > 0 then ddiv (of_nat longWords) (of_nat wordCount) else 0);
          lengths = responseLengths st @ [wordCount];
          complexities = vocabularyComplexities st @ [complexityRatio];
          timings = (if responseTimeSec \<noteq> None then responseTimings st @ [the responseTimeSec]
                     else responseTimings st);
          answerFlags = check_fast_response responseTimeSec wordCount
                        @ check_high_wpm responseTimeSec wordCount
                        @ check_length_spike lengths wordCount
                        @ check_complexity_spike complexities complexityRatio
                        @ check_score_timing responseTimeSec score wordCount
                        @ check_repetitive answer;
          answerPoints = sum_list (map fl_points answerFlags);
          suspicion = min 100 (js_round (dadd (dmul (of_int (overallSuspicionScore st)) (dlit (7 / 10)))
                                              (dmul (of_int answerPoints) (dlit (3 / 10)))))
      in (\<lparr>ar_flags = answerFlags, ar_answerSuspicionPoints = answerPoints,
           ar_overallSuspicionScore = suspicion, ar_suspicionLevel = getSuspicionLevel suspicion,
           ar_metrics = \<lparr>am_responseTimeSec = map_option dround1 responseTimeSec,
                          am_wordCount = wordCount, am_avgWordLength = dround1 avgWordLength,
                          am_complexityRatio = dround2 complexityRatio\<rparr>\<rparr>,
          st\<lparr>responseTimings := timings, responseLengths := lengths,
             vocabularyComplexities := complexities, flags := flags st @ answerFlags,
             overallSuspicionScore := suspicion\<rparr>))"

record anticheat_data =
  acd_responseTimings :: "rat list"
  acd_responseLengths :: "nat list"
  acd_vocabularyComplexities :: "rat list"
  acd_flags :: "cheat_flag list"
  acd_overallSuspicionScore :: int

definition serialize_monitor :: "anticheat_state \<Rightarrow> anticheat_data" where
  \<comment> \<open>\<open>AntiCheatMonitor.serialize\<close>; the class has no method that restores a monitor\<close>
  "serialize_monitor st =
     \<lparr>acd_responseTimings = responseTimings st, acd_responseLengths = responseLengths st,
      acd_vocabularyComplexities = vocabularyComplexities st, acd_flags = flags st,
      acd_overallSuspicionScore = overallSuspicionScore st\<rparr>"

subsection \<open>The suspicion update as the specification words it\<close>


definition timing_flag_types :: "string set" where
  "timing_flag_types = {''fast_response'', ''high_wpm'', ''score_timing_mismatch''}"


subsection \<open>Concrete answers and monitors used as examples\<close>

definition fast_answer :: string where
  "fast_answer = ''w w w w w w w w w w w w w w w w w w w w w''"

definition spike_answer :: string where
  "spike_answer = ''abcdefgh bcdefgha cdefghab abcdefgh bcdefgha cdefghab abcdefgh bcdefgha cdefghab abcdefgh bcdefgha cdefghab abcdefgh bcdefgha cdefghab abcdefgh bcdefgha cdefghab abcdefgh bcdefgha cdefghab abcdefgh bcdefgha cdefghab abcdefgh bcdefgha cdefghab abcdefgh bcdefgha cdefghab abcdefgh bcdefgha cdefghab abcdefgh bcdefgha cdefghab abcdefgh bcdefgha cdefghab abcdefgh bcdefgha cdefghab abcdefgh bcdefgha cdefghab abcdefgh bcdefgha cdefghab abcdefgh bcdefgha cdefghab''"

definition untimed_monitor :: anticheat_state where
  "untimed_monitor = new_monitor\<lparr>responseLengths := [1, 1], vocabularyComplexities := [dlit (1 / 10), dlit (1 / 10)]\<rparr>"



section \<open>Skill gap module\<close>

text \<open>
  A JavaScript object used as a dictionary is an association list in insertion order. The
  keys (role levels, topics, question types) are assumed to be neither names of members of
  \<open>Object.prototype\<close> (for such a question type \<open>trackAnswer\<close> throws) nor integer-like
  strings (which an object lists first). An average over no scores is \<open>NaN\<close>, modelled as \<open>None\<close>: every
  comparison with it is false.
\<close>

definition ROLE_BASELINES :: "(string \<times> (string \<times> rat) list) list" where
  "ROLE_BASELINES =
     [(''junior'', [(''technical'', 5), (''behavioral'', 5), (''problem_solving'', 4),
                    (''system_design'', 3), (''communication'', 5)]),
      (''mid'', [(''technical'', 7), (''behavioral'', 6), (''problem_solving'', 6),
                 (''system_design'', 5), (''communication'', 6)]),
      (''senior'', [(''technical'', 8), (''behavioral'', 7), (''problem_solving'', 8),
                    (''system_design'', 7), (''communication'', 7)])]"

definition TOPIC_PATTERNS :: "(string \<times> string list) list" where
  "TOPIC_PATTERNS =
     [(''JavaScript/TypeScript'',
        [''javascript'', ''typescript'', ''js'', ''ts'', ''node'', ''es6'', ''ecmascript'',
         ''v8'', ''npm'']),
      (''React/Frontend'',
        [''react'', ''component'', ''hook'', ''frontend'', ''css'', ''html'', ''dom'', ''ui'',
         ''ux'', ''next.js'', ''vue'', ''angular'']),
      (''Backend/API'',
        [''backend'', ''api'', ''rest'', ''graphql'', ''server'', ''express'', ''endpoint'',
         ''middleware'', ''authentication'']),
      (''Database'',
        [''database'', ''sql'', ''nosql'', ''query'', ''schema'', ''migration'', ''orm'',
         ''mongo'', ''postgres'', ''redis'']),
      (''System Design'',
        [''system design'', ''architecture'', ''scalab'', ''microservice'', ''distributed'',
         ''load balanc'', ''caching'']),
      (''Data Structures'',
        [''array'', ''linked list'', ''tree'', ''graph'', ''hash'', ''stack'', ''queue'',
         ''heap'', ''data structure'']),
      (''Algorithms'',
        [''algorithm'', ''sorting'', ''searching'', ''recursion'', ''dynamic programming'',
         ''complexity'', ''big o'', ''time complexity'']),
      (''DevOps/CI-CD'',
        [''docker'', ''kubernetes'', ''ci/cd'', ''pipeline'', ''deployment'', ''aws'',
         ''cloud'', ''devops'', ''terraform'']),
      (''Testing'',
        [''testing'', ''unit test'', ''integration test'', ''e2e'', ''jest'', ''cypress'',
         ''tdd'', ''coverage'', ''mock'']),
      (''Security'',
        [''security'', ''xss'', ''csrf'', ''authentication'', ''authorization'',
         ''encryption'', ''vulnerability'', ''owasp'']),
      (''Leadership'',
        [''leadership'', ''mentor'', ''team lead'', ''manage'', ''delegate'', ''vision'',
         ''strategy'']),
      (''Problem Solving'',
        [''problem solving'', ''approach'', ''debug'', ''troubleshoot'', ''root cause'',
         ''analyze'', ''optimize'']),
      (''Communication'',
        [''communicate'', ''present'', ''explain'', ''stakeholder'', ''collaborate'',
         ''feedback'', ''documentation''])]"

definition topicToCategory :: "(string \<times> string) list" where
  "topicToCategory =
     [(''JavaScript/TypeScript'', ''technical''),
      (''React/Frontend'', ''technical''),
      (''Backend/API'', ''technical''),
      (''Database'', ''technical''),
      (''System Design'', ''system_design''),
      (''Data Structures'', ''technical''),
      (''Algorithms'', ''problem_solving''),
      (''DevOps/CI-CD'', ''technical''),
      (''Testing'', ''technical''),
      (''Security'', ''technical''),
      (''Leadership'', ''behavioral''),
      (''Problem Solving'', ''problem_solving''),
      (''Communication'', ''communication''),
      (''General'', ''technical'')]"

definition recommendations :: "(string \<times> string) list" where
  "recommendations =
     [(''JavaScript/TypeScript'',
       ''Review core JS concepts: closures, prototypes, async/await, event loop. Practice on platforms like LeetCode.''),
      (''React/Frontend'',
       ''Build small React projects focusing on hooks, state management, and component lifecycle.''),
      (''Backend/API'',
       ''Practice building REST APIs with authentication, error handling, and database integration.''),
      (''Database'',
       ''Study SQL joins, indexing strategies, and database normalization. Practice query writing.''),
      (''System Design'',
       ''Study Grokking the System Design Interview. Practice designing real systems like URL shorteners.''),
      (''Data Structures'',
       ''Review arrays, trees, graphs, hash tables. Implement each from scratch.''),
      (''Algorithms'',
       ''Practice sorting, searching, and dynamic programming. Aim for 2-3 LeetCode problems daily.''),
      (''DevOps/CI-CD'',
       ''Set up a simple CI/CD pipeline with GitHub Actions. Learn Docker basics.''),
      (''Testing'',
       ''Write unit tests for existing code. Learn Jest/Mocha and testing patterns.''),
      (''Security'',
       ''Study OWASP Top 10. Learn about XSS, CSRF, SQL injection prevention.''),
      (''Leadership'',
       ''Practice STAR method stories about leadership experiences. Read about engineering management.''),
      (''Problem Solving'',
       ''Practice breaking down complex problems. Use whiteboard/verbal problem solving.''),
      (''Communication'',
       ''Record yourself explaining technical concepts. Practice concise, structured answers.'')]"

record skillgap_state =
  roleLevel :: string
  baseline :: "(string \<times> rat) list"
  topicScores :: "(string \<times> rat list) list"
  questionTypeScores :: "(string \<times> rat list) list"
  questionsAnalyzed :: nat

definition baseline_of :: "string \<Rightarrow> (string \<times> rat) list" where
  \<comment> \<open>\<open>ROLE_BASELINES[roleLevel] || ROLE_BASELINES.mid\<close>\<close>
  "baseline_of role =
     (case map_of ROLE_BASELINES role of
        None \<Rightarrow> the (map_of ROLE_BASELINES ''mid'')
      | Some b \<Rightarrow> b)"

definition new_detector :: "string option \<Rightarrow> skillgap_state" where
  \<comment> \<open>the constructor; a missing argument is the default \<open>'mid'\<close>\<close>
  "new_detector role =
     (let r = (case role of None \<Rightarrow> ''mid'' | Some x \<Rightarrow> x)
      in \<lparr>roleLevel = r, baseline = baseline_of r, topicScores = [], questionTypeScores = [],
          questionsAnalyzed = 0\<rparr>)"

definition detectTopics :: "string \<Rightarrow> string list" where
  "detectTopics question =
     (let lower = toLowerCase question;
          detected = map fst (filter (\<lambda>(topic, patterns). \<exists>p \<in> set patterns. str_includes lower p)
                                     TOPIC_PATTERNS)
      in if length detected = 0 then [''General''] else detected)"

fun push_score :: "string \<Rightarrow> rat \<Rightarrow> (string \<times> rat list) list \<Rightarrow> (string \<times> rat list) list" where
  \<comment> \<open>\<open>if (!table[k]) table[k] = []; table[k].push(v)\<close>\<close>
  "push_score k v [] = [(k, [v])]"
| "push_score k v ((k', vs) # rest) =
     (if k' = k then (k', vs @ [v]) # rest else (k', vs) # push_score k v rest)"

definition getAverages :: "(string \<times> rat list) list \<Rightarrow> (string \<times> rat option) list" where
  \<comment> \<open>\<open>_getTopicAverages\<close> and \<open>_getTypeAverages\<close>: the mean of each list, to one decimal\<close>
  "getAverages table = map (\<lambda>(k, scores). (k, map_option dround1 (daverage scores))) table"

record track_result =
  tr_detectedTopics :: "string list"
  tr_questionType :: string
  tr_score :: rat
  tr_topicAverages :: "(string \<times> rat option) list"

definition trackAnswer ::
    "string \<Rightarrow> string \<Rightarrow> rat \<Rightarrow> string \<Rightarrow> skillgap_state \<Rightarrow> track_result \<times> skillgap_state" where
  "trackAnswer question answer score questionType st =
     (let detectedTopics = detectTopics question;
          st' = st\<lparr>questionsAnalyzed := questionsAnalyzed st + 1,
                   topicScores := foldl (\<lambda>table topic. push_score topic score table)
                                        (topicScores st) detectedTopics,
                   questionTypeScores := push_score questionType score (questionTypeScores st)\<rparr>
      in (\<lparr>tr_detectedTopics = detectedTopics, tr_questionType = questionType, tr_score = score,
           tr_topicAverages = getAverages (topicScores st')\<rparr>, st'))"

definition lookup_or :: "(string \<times> rat) list \<Rightarrow> string \<Rightarrow> rat \<Rightarrow> rat" where
  \<comment> \<open>\<open>table[k] || d\<close>\<close>
  "lookup_or table k d = js_or (map_of table k) d"

definition getBaselineForTopic :: "skillgap_state \<Rightarrow> string \<Rightarrow> rat" where
  "getBaselineForTopic st topic =
     (let category = (case map_of topicToCategory topic of None \<Rightarrow> ''technical'' | Some c \<Rightarrow> c)
      in lookup_or (baseline st) category 5)"

definition getTopicRecommendation :: "string \<Rightarrow> string" where
  "getTopicRecommendation topic =
     (case map_of recommendations topic of
        None \<Rightarrow> ''Focus on improving '' @ topic @ '' skills through dedicated practice and study.''
      | Some r \<Rightarrow> r)"

record gap =
  gap_topic :: string
  gap_currentScore :: rat
  gap_expectedScore :: rat
  gap_deficit :: rat
  gap_severity :: string
  gap_recommendation :: string
  gap_questionsAsked :: nat

record strength =
  str_topic :: string
  str_currentScore :: rat
  str_expectedScore :: rat
  str_surplus :: rat

record type_analysis =
  ta_score :: "rat option"
  ta_expected :: rat
  ta_gap :: "rat option"
  ta_status :: string

record learning_step =
  ls_priority :: nat
  ls_topic :: string
  ls_currentLevel :: rat
  ls_targetLevel :: rat
  ls_action :: string
  ls_estimatedHours :: nat

definition calculateOverallGapScore :: "gap list \<Rightarrow> int" where
  "calculateOverallGapScore gaps =
     (if length gaps = 0 then 0
      else (let totalDeficit = foldl (\<lambda>sum g. dadd sum (gap_deficit g)) 0 gaps;
                maxPossibleDeficit = dmul (of_nat (length gaps)) 10
            in min 100 (js_round (dmul (ddiv totalDeficit maxPossibleDeficit) 100))))"

definition generateLearningPath :: "gap list \<Rightarrow> learning_step list" where
  "generateLearningPath gaps =
     map (\<lambda>(index, g). \<lparr>ls_priority = index + 1, ls_topic = gap_topic g,
                          ls_currentLevel = gap_currentScore g, ls_targetLevel = gap_expectedScore g,
                          ls_action = gap_recommendation g,
                          ls_estimatedHours = (if gap_severity g = ''critical'' then 20 else 10)\<rparr>)
         (enumerate 0 (take 5 (filter (\<lambda>g. gap_severity g \<noteq> ''minor'') gaps)))"

record gap_analysis =
  ga_roleLevel :: string
  ga_questionsAnalyzed :: nat
  ga_topicScores :: "(string \<times> rat option) list"
  ga_gaps :: "gap list"
  ga_strengths :: "strength list"
  ga_typeAnalysis :: "(string \<times> type_analysis) list"
  ga_overallGapScore :: int
  ga_prioritizedLearningPath :: "learning_step list"

definition find_gaps :: "skillgap_state \<Rightarrow> (string \<times> rat option) list \<Rightarrow> gap list" where
  \<comment> \<open>the first loop of \<open>getAnalysis\<close>\<close>
  "find_gaps st topicAverages =
     concat (map (\<lambda>(topic, avgScore).
        (case avgScore of
           None \<Rightarrow> []
         | Some a \<Rightarrow>
             (let baselineScore = getBaselineForTopic st topic;
                  deficit = dsub baselineScore a
              in if deficit > 0
                 then [\<lparr>gap_topic = topic, gap_currentScore = a, gap_expectedScore = baselineScore,
                         gap_deficit = dround1 deficit,
                         gap_severity = (if deficit \<ge> 3 then ''critical''
                                         else if deficit \<ge> dlit (15 / 10) then ''significant'' else ''minor''),
                         gap_recommendation = getTopicRecommendation topic,
                         gap_questionsAsked = length (lookup_list (topicScores st) topic)\<rparr>]
                 else []))) topicAverages)"

definition find_strengths :: "skillgap_state \<Rightarrow> (string \<times> rat option) list \<Rightarrow> strength list" where
  \<comment> \<open>the second loop of \<open>getAnalysis\<close>\<close>
  "find_strengths st topicAverages =
     concat (map (\<lambda>(topic, avgScore).
        (case avgScore of
           None \<Rightarrow> []
         | Some a \<Rightarrow>
             (let baselineScore = getBaselineForTopic st topic;
                  surplus = dsub a baselineScore
              in if surplus \<ge> 1
                 then [\<lparr>str_topic = topic, str_currentScore = a, str_expectedScore = baselineScore,
                         str_surplus = dround1 surplus\<rparr>]
                 else []))) topicAverages)"

definition getAnalysis :: "skillgap_state \<Rightarrow> gap_analysis" where
  \<comment> \<open>\<open>Array.prototype.sort\<close> is stable; \<open>(a, b) => b.deficit - a.deficit\<close> orders by
      decreasing deficit\<close>
  "getAnalysis st =
     (let topicAverages = getAverages (topicScores st);
          typeAverages = getAverages (questionTypeScores st);
          gaps = sort_key (\<lambda>g. - gap_deficit g) (find_gaps st topicAverages);
          strengths = sort_key (\<lambda>s. - str_surplus s) (find_strengths st topicAverages);
          typeAnalysis = map (\<lambda>(type, avgScore).
                            (let expected = lookup_or (baseline st) type 5
                             in (type, \<lparr>ta_score = avgScore, ta_expected = expected,
                                        ta_gap = map_option (\<lambda>a. dround1 (dsub expected a)) avgScore,
                                        ta_status = (if nan_ge avgScore expected then ''meets_expectation''
                                                     else ''below_expectation'')\<rparr>))) typeAverages
      in \<lparr>ga_roleLevel = roleLevel st, ga_questionsAnalyzed = questionsAnalyzed st,
          ga_topicScores = topicAverages, ga_gaps = gaps, ga_strengths = strengths,
          ga_typeAnalysis = typeAnalysis, ga_overallGapScore = calculateOverallGapScore gaps,
          ga_prioritizedLearningPath = generateLearningPath gaps\<rparr>)"

record skillgap_data =
  sgd_roleLevel :: "string option"
  sgd_topicScores :: "(string \<times> rat list) list option"
  sgd_questionTypeScores :: "(string \<times> rat list) list option"
  sgd_questionsAnalyzed :: "nat option"

definition serialize_detector :: "skillgap_state \<Rightarrow> skillgap_data" where
  "serialize_detector st =
     \<lparr>sgd_roleLevel = Some (roleLevel st), sgd_topicScores = Some (topicScores st),
      sgd_questionTypeScores = Some (questionTypeScores st),
      sgd_questionsAnalyzed = Some (questionsAnalyzed st)\<rparr>"

definition detector_fromSerialized :: "skillgap_data \<Rightarrow> skillgap_state" where
  "detector_fromSerialized d =
     (new_detector (sgd_roleLevel d))
       \<lparr>topicScores := js_or_list (sgd_topicScores d),
        questionTypeScores := js_or_list (sgd_questionTypeScores d),
        questionsAnalyzed := js_or (sgd_questionsAnalyzed d) 0\<rparr>"



subsection \<open>A gap record used in examples\<close>

definition gap_of_deficit :: "rat \<Rightarrow> gap" where
  "gap_of_deficit d = \<lparr>gap_topic = ''Security'', gap_currentScore = 8 - d, gap_expectedScore = 8,
      gap_deficit = d, gap_severity = ''critical'',
      gap_recommendation = getTopicRecommendation ''Security'', gap_questionsAsked = 1\<rparr>"


section \<open>Feedback module\<close>

text \<open>The tiers in the order of the source's table; the emoji of a tier is left out.\<close>

record performance_tier =
  pt_key :: string
  pt_min :: rat
  pt_label :: string
  pt_description :: string

definition PERFORMANCE_TIERS :: "performance_tier list" where
  "PERFORMANCE_TIERS =
     [\<lparr>pt_key = ''exceptional'', pt_min = 9, pt_label = ''Exceptional'',
        pt_description = ''Outstanding performance. Interview-ready.''\<rparr>,
      \<lparr>pt_key = ''strong'', pt_min = 75 / 10, pt_label = ''Strong'',
        pt_description = ''Solid performance with minor gaps.''\<rparr>,
      \<lparr>pt_key = ''competent'', pt_min = 6, pt_label = ''Competent'',
        pt_description = ''Adequate but needs improvement in key areas.''\<rparr>,
      \<lparr>pt_key = ''developing'', pt_min = 4, pt_label = ''Developing'',
        pt_description = ''Significant gaps. Needs focused practice.''\<rparr>,
      \<lparr>pt_key = ''beginner'', pt_min = 0, pt_label = ''Beginner'',
        pt_description = ''Fundamental skills need development.''\<rparr>]"

definition getPerformanceTier :: "rat \<Rightarrow> performance_tier" where
  "getPerformanceTier score =
     (case find (\<lambda>tier. score \<ge> pt_min tier) PERFORMANCE_TIERS of
        Some tier \<Rightarrow> tier
      | None \<Rightarrow> last PERFORMANCE_TIERS)"

definition getTrajectory :: "int list \<Rightarrow> string" where
  "getTrajectory history =
     (if length history < 2 then ''stable''
      else if last history > hd history then ''ascending''
      else if last history < hd history then ''descending''
      else ''stable'')"

record difficulty_progression =
  dp_startLevel :: int
  dp_endLevel :: int
  dp_peaked :: "int option"
  dp_trajectory :: string

definition difficultyProgression :: "adaptive_state \<Rightarrow> difficulty_progression" where
  \<comment> \<open>the \<open>difficultyProgression\<close> block of \<open>generateFeedbackReport\<close>, on the level history
      and current level that \<open>getState\<close> copies out of the manager; \<open>Math.max()\<close> of no
      argument is \<open>-Infinity\<close>, modelled as \<open>None\<close>\<close>
  "difficultyProgression st =
     \<lparr>dp_startLevel = (case levelHistory st of [] \<Rightarrow> 1 | l # ls \<Rightarrow> if l = 0 then 1 else l),
      dp_endLevel = currentLevel st,
      dp_peaked = (if levelHistory st = [] then None else Some (Max (set (levelHistory st)))),
      dp_trajectory = getTrajectory (levelHistory st)\<rparr>"


section \<open>Runs of a session\<close>

fun track_all :: "(string \<times> string \<times> rat \<times> string) list \<Rightarrow> skillgap_state \<Rightarrow> skillgap_state" where
  \<comment> \<open>a sequence of \<open>trackAnswer(question, answer, score, questionType)\<close> calls on one detector\<close>
  "track_all [] st = st"
| "track_all ((q, a, s, t) # xs) st = track_all xs (snd (trackAnswer q a s t st))"

definition general_question :: string where
  \<comment> \<open>a question in which no topic pattern occurs\<close>
  "general_question = ''What did you enjoy most last year?''"

definition general_detector :: skillgap_state where
  \<comment> \<open>a mid-level detector after three \<open>technical\<close> answers scored 9 on the topic General\<close>
  "general_detector =
     \<lparr>roleLevel = ''mid'', baseline = baseline_of ''mid'',
      topicScores = [(''General'', [9, 9, 9])], questionTypeScores = [(''technical'', [9, 9, 9])],
      questionsAnalyzed = 3\<rparr>"


section \<open>Rounding\<close>

lemma js_round_eq_iff: "js_round x = n \<longleftrightarrow> of_int n - 1 / 2 \<le> x \<and> x < of_int n + 1 / 2"
  unfolding js_round_def floor_eq_iff by auto

lemma js_round_ge_iff: "n \<le> js_round x \<longleftrightarrow> of_int n - 1 / 2 \<le> x"
  unfolding js_round_def le_floor_iff by auto

lemma js_round_mono: "x \<le> y \<Longrightarrow> js_round x \<le> js_round y"
  unfolding js_round_def by (simp add: floor_mono)

lemma js_round_of_int: "js_round (of_int n) = n"
  by (simp add: js_round_eq_iff)

lemma js_round_nonneg: "0 \<le> x \<Longrightarrow> 0 \<le> js_round x"
  using js_round_mono[of 0 x] js_round_of_int[of 0] by simp

lemma js_round_le_10: "x \<le> 10 \<Longrightarrow> js_round x \<le> 10"
  using js_round_mono[of x 10] js_round_of_int[of 10] by simp

lemma js_round_0: "js_round 0 = 0"
  by (simp add: js_round_eq_iff)


section \<open>Properties of the double operations\<close>

lemma pow2_pos: "0 < pow2 e"
  by (simp add: pow2_def)

lemma round_even_nonneg: "0 \<le> x \<Longrightarrow> 0 \<le> round_even x"
  by (auto simp: round_even_def Let_def)


lemma fl_0: "fl 0 = 0"
  by (simp add: fl_def)

lemma fl_nonneg: "0 \<le> x \<Longrightarrow> 0 \<le> fl x"
proof (cases "x = 0")
  case True
  then show ?thesis by (simp add: fl_0)
next
  case False
  assume "0 \<le> x"
  with False have x: "0 < x" by simp
  let ?q = "pow2 (binade \<bar>x\<bar> - 52)"
  have q: "0 < ?q" by (rule pow2_pos)
  with x have "0 \<le> \<bar>x\<bar> / ?q" by simp
  then have "0 \<le> round_even (\<bar>x\<bar> / ?q)" by (rule round_even_nonneg)
  with q x show ?thesis
    by (simp add: fl_def Let_def False)
qed

lemma double_ops_nonneg:
  "0 \<le> x \<Longrightarrow> 0 \<le> y \<Longrightarrow> 0 \<le> dadd x y"
  "0 \<le> x \<Longrightarrow> 0 \<le> y \<Longrightarrow> 0 \<le> dmul x y"
  "0 \<le> x \<Longrightarrow> 0 \<le> y \<Longrightarrow> 0 \<le> ddiv x y"
  "0 \<le> x \<Longrightarrow> 0 \<le> dlit x"
  by (simp_all add: dadd_def dmul_def ddiv_def dlit_def fl_nonneg)




lemma double_ops_zero:
  "dmul 0 y = 0" "ddiv 0 y = 0" "dadd 0 0 = 0"
  by (simp_all add: dmul_def ddiv_def dadd_def fl_0)

lemma dsum_nonneg: "0 \<le> a \<Longrightarrow> \<forall>x \<in> set xs. 0 \<le> x \<Longrightarrow> 0 \<le> foldl dadd a xs"
  by (induction xs arbitrary: a) (simp_all add: double_ops_nonneg)


section \<open>Properties of the adaptive difficulty module\<close>


lemma slice_from_last:
  "0 < w \<Longrightarrow> slice_from (- w) xs = drop (length xs - nat w) xs"
  by (auto simp: slice_from_def Let_def max_def nat_diff_distrib' intro!: arg_cong[where f="\<lambda>k. drop k xs"])

lemma average_window:
  "0 < w \<Longrightarrow> daverage (slice_from (- w) (xs @ [x])) = Some (spec_rolling_average (nat w) (xs @ [x]))"
  by (auto simp: slice_from_last daverage_def spec_rolling_average_def min_def)

lemma DIFFICULTY_LEVELS_simps:
  "DIFFICULTY_LEVELS 1 = Some \<lparr>lc_name = ''Easy'',
          lc_description = ''Fundamental concepts and definitions'',
          lc_promptModifier = ''Ask a basic, introductory-level question about fundamentals or definitions.'',
          lc_scoreThreshold = \<lparr>up = Some 7, down = None\<rparr>\<rparr>"
  "DIFFICULTY_LEVELS 2 = Some \<lparr>lc_name = ''Medium'',
          lc_description = ''Applied knowledge and scenarios'',
          lc_promptModifier = ''Ask a moderate-difficulty question involving practical application or scenario-based thinking.'',
          lc_scoreThreshold = \<lparr>up = Some 8, down = Some 4\<rparr>\<rparr>"
  "DIFFICULTY_LEVELS 3 = Some \<lparr>lc_name = ''Hard'',
          lc_description = ''Advanced concepts, system design, edge cases'',
          lc_promptModifier = ''Ask an advanced, challenging question about system design, edge cases, or deep technical concepts.'',
          lc_scoreThreshold = \<lparr>up = None, down = Some 5\<rparr>\<rparr>"
  by (simp_all add: DIFFICULTY_LEVELS_def)

lemma levels_defined: "l \<in> {1,2,3} \<Longrightarrow> \<exists>c. DIFFICULTY_LEVELS l = Some c"
  by (auto simp: DIFFICULTY_LEVELS_simps)

lemma recordScore_defined:
  assumes "DIFFICULTY_LEVELS (currentLevel st) = Some config"
  shows "\<exists>entry. recordScore now score st =
           Inr (entry, st\<lparr>currentLevel := recorded_level st score config,
                           scoreHistory := scoreHistory st @ [score],
                           adaptationLog := adaptationLog st @ [entry],
                           levelHistory := levelHistory st @ [recorded_level st score config]\<rparr>)"
  using assms by (simp add: recordScore_def Let_def recorded_level_def)

lemma recorded_level_step:
  assumes "currentLevel st \<in> {1,2,3}" "0 < windowSize st"
    and "DIFFICULTY_LEVELS (currentLevel st) = Some config"
  shows "recorded_level st score config =
           spec_level_rule (currentLevel st) (length (scoreHistory st @ [score]))
              (spec_rolling_average (nat (windowSize st)) (scoreHistory st @ [score]))"
proof -
  consider "currentLevel st = 1" | "currentLevel st = 2" | "currentLevel st = 3"
    using assms(1) by auto
  then show ?thesis
  proof cases
    case 1
    with assms(3) have "lc_scoreThreshold config = \<lparr>up = Some 7, down = None\<rparr>"
      by (auto simp: DIFFICULTY_LEVELS_simps)
    with 1 assms(2) show ?thesis
      by (simp add: recorded_level_def next_level_def average_window nan_ge_def nan_le_def spec_level_rule_def Suc_le_eq)
  next
    case 2
    with assms(3) have "lc_scoreThreshold config = \<lparr>up = Some 8, down = Some 4\<rparr>"
      by (auto simp: DIFFICULTY_LEVELS_simps)
    with 2 assms(2) show ?thesis
      by (simp add: recorded_level_def next_level_def average_window nan_ge_def nan_le_def spec_level_rule_def Suc_le_eq)
  next
    case 3
    with assms(3) have "lc_scoreThreshold config = \<lparr>up = None, down = Some 5\<rparr>"
      by (auto simp: DIFFICULTY_LEVELS_simps)
    with 3 assms(2) show ?thesis
      by (simp add: recorded_level_def next_level_def average_window nan_ge_def nan_le_def spec_level_rule_def Suc_le_eq)
  qed
qed

lemma recordScore_step:
  assumes "currentLevel st \<in> {1,2,3}" "0 < windowSize st"
  shows "\<exists>entry st'. recordScore now score st = Inr (entry, st') \<and>
           scoreHistory st' = scoreHistory st @ [score] \<and>
           levelHistory st' = levelHistory st @ [currentLevel st'] \<and>
           windowSize st' = windowSize st \<and>
           currentLevel st' = spec_level_rule (currentLevel st) (length (scoreHistory st'))
              (spec_rolling_average (nat (windowSize st)) (scoreHistory st'))"
proof -
  obtain config where c: "DIFFICULTY_LEVELS (currentLevel st) = Some config"
    using levels_defined[OF assms(1)] by blast
  from recordScore_defined[OF c, of now score] obtain entry where
    "recordScore now score st =
           Inr (entry, st\<lparr>currentLevel := recorded_level st score config,
                           scoreHistory := scoreHistory st @ [score],
                           adaptationLog := adaptationLog st @ [entry],
                           levelHistory := levelHistory st @ [recorded_level st score config]\<rparr>)"
    by blast
  then show ?thesis
    using recorded_level_step[OF assms c, of score] by simp
qed

lemma spec_level_rule_range: "l \<in> {1,2,3} \<Longrightarrow> spec_level_rule l n a \<in> {1,2,3}"
  by (auto simp: spec_level_rule_def)

lemma spec_level_rule_near: "l \<in> {1,2,3} \<Longrightarrow> \<bar>spec_level_rule l n a - l\<bar> \<le> 1"
  by (auto simp: spec_level_rule_def)

lemma recordScore_adapts:
  assumes "currentLevel st \<in> {1,2,3}" and "0 < windowSize st"
  shows "\<exists>entry st'. recordScore now score st = Inr (entry, st') \<and>
           scoreHistory st' = scoreHistory st @ [score] \<and> adapts_by_rule st st'"
proof -
  from recordScore_step[OF assms, of now score] obtain entry st' where
    r: "recordScore now score st = Inr (entry, st')"
    and h: "scoreHistory st' = scoreHistory st @ [score]"
    and w: "windowSize st' = windowSize st"
    and l: "currentLevel st' = spec_level_rule (currentLevel st) (length (scoreHistory st'))
              (spec_rolling_average (nat (windowSize st)) (scoreHistory st'))"
    by blast
  have rng: "currentLevel st' \<in> {1,2,3}"
    unfolding l by (rule spec_level_rule_range[OF assms(1)])
  have near: "\<bar>currentLevel st' - currentLevel st\<bar> \<le> 1"
    unfolding l by (rule spec_level_rule_near[OF assms(1)])
  have chg: "currentLevel st' \<noteq> currentLevel st \<longrightarrow> 2 \<le> length (scoreHistory st')"
    unfolding l by (simp add: spec_level_rule_def)
  have "adapts_by_rule st st'"
    unfolding adapts_by_rule_def using rng near chg w l by blast
  with r h show ?thesis by blast
qed

lemma recordScore_runs:
  assumes "currentLevel st \<in> {1,2,3}" and "0 < windowSize st"
  shows "\<exists>sts. record_scores cs st = Inr sts \<and> length sts = length cs \<and>
           (\<forall>k < length cs.
              adapts_by_rule ((st # sts) ! k) (sts ! k) \<and>
              scoreHistory (sts ! k) = scoreHistory st @ map snd (take (Suc k) cs))"
  using assms
proof (induction cs arbitrary: st)
  case Nil
  then show ?case by simp
next
  case (Cons c cs)
  from recordScore_adapts[OF Cons.prems, of "fst c" "snd c"] obtain entry st' where
    r: "recordScore (fst c) (snd c) st = Inr (entry, st')"
    and h: "scoreHistory st' = scoreHistory st @ [snd c]"
    and ad: "adapts_by_rule st st'"
    by blast
  from ad have rng: "currentLevel st' \<in> {1,2,3}"
    unfolding adapts_by_rule_def by blast
  from ad have "windowSize st' = windowSize st"
    unfolding adapts_by_rule_def by blast
  with Cons.prems(2) have w': "0 < windowSize st'" by simp
  from Cons.IH[OF rng w'] obtain sts where
    s: "record_scores cs st' = Inr sts" and n: "length sts = length cs"
    and a: "\<forall>k < length cs.
              adapts_by_rule ((st' # sts) ! k) (sts ! k) \<and>
              scoreHistory (sts ! k) = scoreHistory st' @ map snd (take (Suc k) cs)"
    by blast
  have run: "record_scores (c # cs) st = Inr (st' # sts)"
    using r s by simp
  have "adapts_by_rule ((st # st' # sts) ! k) ((st' # sts) ! k) \<and>
        scoreHistory ((st' # sts) ! k) = scoreHistory st @ map snd (take (Suc k) (c # cs))"
    if "k < length (c # cs)" for k
  proof (cases k)
    case 0
    then show ?thesis using ad h by simp
  next
    case (Suc j)
    with that have "j < length cs" by simp
    with a have "adapts_by_rule ((st' # sts) ! j) (sts ! j) \<and>
              scoreHistory (sts ! j) = scoreHistory st' @ map snd (take (Suc j) cs)"
      by blast
    then show ?thesis using Suc h by simp
  qed
  with run n show ?case by simp
qed

text \<open>
  Claim C2. From any manager whose level is 1, 2 or 3 (window size positive, as the
  constructor's default 3 is), every sequence of \<open>recordScore\<close> calls with scores in [0,10]
  succeeds, and each call leaves a level in {1,2,3} that differs from the previous one by
  at most 1, differs only when at least two scores are recorded, and is the level the
  threshold rule gives for the rolling average of the last \<open>windowSize\<close> scores.
\<close>
theorem recordScore_sequence:
  assumes "currentLevel st \<in> {1,2,3}" and "0 < windowSize st"
    and "\<forall>s \<in> set (scoreHistory st). in_range s" and "\<forall>c \<in> set cs. in_range (snd c)"
  shows "\<exists>sts. record_scores cs st = Inr sts \<and> length sts = length cs \<and>
           (\<forall>k < length cs.
              adapts_by_rule ((st # sts) ! k) (sts ! k) \<and>
              scoreHistory (sts ! k) = scoreHistory st @ map snd (take (Suc k) cs))"
  using assms(1,2) by (rule recordScore_runs)

lemma rounded_sum_moves_up:
  "map_sum id (map currentLevel)
     (record_scores [(0, 4 - 1 / 2 ^ 51), (1, 10)] (new_manager (Some 1) None)) = Inr [1, 2]"
  "map_sum id (map currentLevel)
     (record_scores [(0, 4), (1, 4 + 1 / 2 ^ 50)] (new_manager (Some 2) None)) = Inr [2, 1]"
  by code_simp+

text \<open>
  The theorem at a concrete manager, with scores whose double sum is rounded: the scores
  \<open>4 - 2^-51\<close> and 10 sum to the double 14, so the average is 7 and level 1 moves up.
\<close>
theorem recordScore_sequence_witness:
  "currentLevel (new_manager (Some 1) None) \<in> {1,2,3} \<and> 0 < windowSize (new_manager (Some 1) None) \<and>
   in_range (4 - 1 / 2 ^ 51) \<and> in_range 10 \<and>
   (\<exists>sts. record_scores [(0, 4 - 1 / 2 ^ 51), (1, 10)] (new_manager (Some 1) None) = Inr sts \<and>
       map currentLevel sts = [1, 2] \<and>
       adapts_by_rule (new_manager (Some 1) None) (sts ! 0) \<and> adapts_by_rule (sts ! 0) (sts ! 1))"
proof -
  let ?cs = "[(0::nat, 4 - 1 / 2 ^ 51 :: rat), (1, 10)]"
  have a: "currentLevel (new_manager (Some 1) None) \<in> {1,2,3}"
    by (simp add: new_manager_def js_or_def)
  have b: "0 < windowSize (new_manager (Some 1) None)"
    by (simp add: new_manager_def js_or_def)
  have i: "in_range (4 - 1 / 2 ^ 51)" "in_range 10"
    by (simp_all add: in_range_def)
  have c: "\<forall>s \<in> set (scoreHistory (new_manager (Some 1) None)). in_range s"
    by (simp add: new_manager_def Let_def)
  have d: "\<forall>c \<in> set ?cs. in_range (snd c)"
    using i by simp
  from recordScore_sequence[OF a b c d] obtain sts where
    r: "record_scores ?cs (new_manager (Some 1) None) = Inr sts"
    and s: "\<forall>k < length ?cs. adapts_by_rule ((new_manager (Some 1) None # sts) ! k) (sts ! k) \<and>
              scoreHistory (sts ! k) = scoreHistory (new_manager (Some 1) None) @ map snd (take (Suc k) ?cs)"
    by blast
  from s have s0: "adapts_by_rule (new_manager (Some 1) None) (sts ! 0)"
    by (metis length_Cons nth_Cons_0 zero_less_Suc)
  from s have "adapts_by_rule ((new_manager (Some 1) None # sts) ! 1) (sts ! 1)"
    by (metis One_nat_def length_Cons lessI list.size(3) Suc_less_eq zero_less_Suc)
  then have s1: "adapts_by_rule (sts ! 0) (sts ! 1)" by simp
  from r rounded_sum_moves_up(1) have m: "map currentLevel sts = [1, 2]" by simp
  have "\<exists>sts. record_scores ?cs (new_manager (Some 1) None) = Inr sts \<and>
       map currentLevel sts = [1, 2] \<and>
       adapts_by_rule (new_manager (Some 1) None) (sts ! 0) \<and> adapts_by_rule (sts ! 0) (sts ! 1)"
    by (rule exI[of _ sts]) (intro conjI r m s0 s1)
  then show ?thesis
    by (intro conjI a b i)
qed

lemma call_manager_history:
  assumes "currentLevel st \<in> {1,2,3}" "history_ok L st"
  shows "\<exists>st'. call_manager c st = Inr st' \<and> currentLevel st' \<in> {1,2,3} \<and> history_ok L st' \<and>
            length (scoreHistory st') = length (scoreHistory st) + (if is_record c then 1 else 0)"
proof (cases c)
  case (RecordScore now score)
  obtain config where cf: "DIFFICULTY_LEVELS (currentLevel st) = Some config"
    using levels_defined[OF assms(1)] by blast
  from recordScore_defined[OF cf, of now score] obtain entry where
    r: "recordScore now score st =
           Inr (entry, st\<lparr>currentLevel := recorded_level st score config,
                           scoreHistory := scoreHistory st @ [score],
                           adaptationLog := adaptationLog st @ [entry],
                           levelHistory := levelHistory st @ [recorded_level st score config]\<rparr>)"
    by blast
  have "recorded_level st score config \<in> {1,2,3}"
    using assms(1) cf
    by (auto simp: recorded_level_def next_level_def DIFFICULTY_LEVELS_simps)
  moreover from assms(2) have "levelHistory st \<noteq> []"
    by (auto simp: history_ok_def)
  ultimately show ?thesis
    using RecordScore r assms(2) by (simp add: history_ok_def)
next
  case (ShouldFollowUp score q a)
  then show ?thesis
    using assms by (simp add: shouldFollowUp_def history_ok_def)
next
  case GetNextQuestionConfig
  obtain config where cf: "DIFFICULTY_LEVELS (currentLevel st) = Some config"
    using levels_defined[OF assms(1)] by blast
  with GetNextQuestionConfig show ?thesis
    using assms by (simp add: getNextQuestionConfig_def history_ok_def Let_def)
qed

lemma run_manager_history:
  assumes "currentLevel st \<in> {1,2,3}" "history_ok L st"
  shows "\<exists>st'. run_manager cs st = Inr st' \<and> currentLevel st' \<in> {1,2,3} \<and> history_ok L st' \<and>
            length (scoreHistory st') = length (scoreHistory st) + length (filter is_record cs)"
  using assms
proof (induction cs arbitrary: st)
  case Nil
  then show ?case by simp
next
  case (Cons c cs)
  from call_manager_history[OF Cons.prems, of c] obtain st1 where
    c: "call_manager c st = Inr st1" and l: "currentLevel st1 \<in> {1,2,3}" and h: "history_ok L st1"
    and n: "length (scoreHistory st1) = length (scoreHistory st) + (if is_record c then 1 else 0)"
    by blast
  from Cons.IH[OF l h] obtain st' where
    "run_manager cs st1 = Inr st'" "currentLevel st' \<in> {1,2,3}" "history_ok L st'"
    "length (scoreHistory st') = length (scoreHistory st1) + length (filter is_record cs)"
    by blast
  with c n show ?case by simp
qed

text \<open>
  Claim C10. For a manager constructed with start level \<open>L\<close> in {1,2,3}, any sequence of
  \<open>recordScore\<close>, \<open>shouldFollowUp\<close> and \<open>getNextQuestionConfig\<close> calls runs without an
  exception and leaves \<open>levelHistory\<close> one longer than \<open>scoreHistory\<close>, starting with
  \<open>L\<close> and ending with \<open>currentLevel\<close>; its length is one plus the number of
  \<open>recordScore\<close> calls. The feedback report's start level is then \<open>L\<close>, its end level the
  last entry, and its trajectory label compares the current level with \<open>L\<close>.
\<close>
theorem levelHistory_well_formed:
  assumes "L \<in> {1,2,3}"
  shows "\<exists>st'. run_manager cs (new_manager (Some L) w) = Inr st' \<and>
           length (levelHistory st') = length (scoreHistory st') + 1 \<and>
           hd (levelHistory st') = L \<and>
           last (levelHistory st') = currentLevel st' \<and>
           length (levelHistory st') = 1 + length (filter is_record cs) \<and>
           dp_startLevel (difficultyProgression st') = L \<and>
           dp_endLevel (difficultyProgression st') = last (levelHistory st') \<and>
           dp_trajectory (difficultyProgression st') =
             (if currentLevel st' > L then ''ascending''
              else if currentLevel st' < L then ''descending'' else ''stable'')"
proof -
  have l: "currentLevel (new_manager (Some L) w) \<in> {1,2,3}"
    using assms by (auto simp: new_manager_def js_or_def)
  have h: "history_ok L (new_manager (Some L) w)"
    using assms by (auto simp: new_manager_def js_or_def history_ok_def)
  from run_manager_history[OF l h, of cs] obtain st' where
    r: "run_manager cs (new_manager (Some L) w) = Inr st'" and ok: "history_ok L st'"
    and n: "length (scoreHistory st') = length (scoreHistory (new_manager (Some L) w)) + length (filter is_record cs)"
    by blast
  from ok have len: "length (levelHistory st') = length (scoreHistory st') + 1"
    and first: "hd (levelHistory st') = L" and final: "last (levelHistory st') = currentLevel st'"
    by (simp_all add: history_ok_def)
  from n len have cnt: "length (levelHistory st') = 1 + length (filter is_record cs)"
    by (simp add: new_manager_def Let_def)
  from len obtain x xs where c: "levelHistory st' = x # xs"
    by (cases "levelHistory st'") auto
  with first have x: "x = L" by simp
  from assms have nz: "L \<noteq> 0" by auto
  have start: "dp_startLevel (difficultyProgression st') = L"
    using c x nz by (simp add: difficultyProgression_def)
  have fin: "dp_endLevel (difficultyProgression st') = last (levelHistory st')"
    using final by (simp add: difficultyProgression_def)
  have single: "currentLevel st' = L" if "xs = []"
    using that c x final by simp
  have traj: "dp_trajectory (difficultyProgression st') =
             (if currentLevel st' > L then ''ascending''
              else if currentLevel st' < L then ''descending'' else ''stable'')"
  proof (cases "xs = []")
    case True
    with c single show ?thesis
      by (simp add: difficultyProgression_def getTrajectory_def)
  next
    case False
    then have "\<not> length (levelHistory st') < 2"
      using c by (cases xs) auto
    then show ?thesis
      using first final by (simp add: difficultyProgression_def getTrajectory_def)
  qed
  from r len first final cnt start fin traj show ?thesis by blast
qed

text \<open>The theorem at a concrete manager.\<close>
theorem levelHistory_well_formed_witness:
  "(2::int) \<in> {1,2,3} \<and>
   (\<exists>st'. run_manager [RecordScore 0 9, ShouldFollowUp 9 ''q'' ''a'', GetNextQuestionConfig, RecordScore 1 9]
              (new_manager (Some 2) None) = Inr st' \<and>
           length (levelHistory st') = length (scoreHistory st') + 1 \<and>
           hd (levelHistory st') = 2 \<and>
           last (levelHistory st') = currentLevel st' \<and>
           length (levelHistory st') = 1 + length (filter is_record [RecordScore 0 9, ShouldFollowUp 9 ''q'' ''a'', GetNextQuestionConfig, RecordScore 1 9]) \<and>
           dp_startLevel (difficultyProgression st') = 2)"
proof -
  have a: "(2::int) \<in> {1,2,3}" by simp
  from levelHistory_well_formed[OF a, of "[RecordScore 0 9, ShouldFollowUp 9 ''q'' ''a'', GetNextQuestionConfig, RecordScore 1 9]" None] a
  show ?thesis by blast
qed

text \<open>
  Claim C6. \<open>shouldFollowUp\<close>: with none pending and a score in [3,6] a follow-up is
  triggered, reason \<open>incomplete_answer\<close> up to 4 and \<open>can_elaborate\<close> above; otherwise with
  a score of 8 or more, a question index divisible by 3 and none pending, a
  \<open>probe_deeper\<close> follow-up is triggered; in every other case the pending flag and the
  context are cleared. A follow-up is triggered only when none was pending, and the flag
  after the call says exactly whether one was triggered; nothing else in the state changes.
\<close>
theorem shouldFollowUp_decision:
  "(let r = fst (shouldFollowUp score q a st); st' = snd (shouldFollowUp score q a st);
        ctx = Some \<lparr>fc_question = q, fc_answer = a, fc_score = score\<rparr>;
        vague = (\<not> followUpPending st \<and> 3 \<le> score \<and> score \<le> 6);
        excellent = (8 \<le> score \<and> questionIndex st mod 3 = 0 \<and> \<not> followUpPending st)
    in (vague \<longrightarrow>
          fr_shouldFollowUp r \<and>
          fr_reason r = Some (if score \<le> 4 then ''incomplete_answer'' else ''can_elaborate'') \<and>
          fr_prompt r = Some (generateFollowUpPrompt score q a) \<and>
          followUpPending st' \<and> followUpContext st' = ctx) \<and>
       (\<not> vague \<and> excellent \<longrightarrow>
          fr_shouldFollowUp r \<and> fr_reason r = Some ''probe_deeper'' \<and>
          followUpPending st' \<and> followUpContext st' = ctx) \<and>
       (\<not> vague \<and> \<not> excellent \<longrightarrow>
          \<not> fr_shouldFollowUp r \<and> fr_reason r = None \<and>
          \<not> followUpPending st' \<and> followUpContext st' = None) \<and>
       (fr_shouldFollowUp r \<longrightarrow> \<not> followUpPending st) \<and>
       (followUpPending st' \<longleftrightarrow> fr_shouldFollowUp r) \<and>
       st'\<lparr>followUpPending := followUpPending st, followUpContext := followUpContext st\<rparr> = st)"
  by (simp add: shouldFollowUp_def Let_def)

text \<open>The theorem at a concrete manager.\<close>
theorem shouldFollowUp_decision_witness:
  "(\<not> followUpPending (new_manager None None) \<and> (3::rat) \<le> 4 \<and> (4::rat) \<le> 6) \<and>
   fr_reason (fst (shouldFollowUp 4 ''q'' ''a'' (new_manager None None))) = Some ''incomplete_answer'' \<and>
   fr_reason (fst (shouldFollowUp 6 ''q'' ''a'' (new_manager None None))) = Some ''can_elaborate'' \<and>
   ((8::rat) \<le> 9 \<and> questionIndex (new_manager None None) mod 3 = 0) \<and>
   fr_reason (fst (shouldFollowUp 9 ''q'' ''a'' (new_manager None None))) = Some ''probe_deeper'' \<and>
   followUpPending (snd (shouldFollowUp 4 ''q'' ''a'' (new_manager None None))) \<and>
   \<not> fr_shouldFollowUp (fst (shouldFollowUp 4 ''q2'' ''a2'' (snd (shouldFollowUp 4 ''q'' ''a'' (new_manager None None))))) \<and>
   \<not> followUpPending (snd (shouldFollowUp 4 ''q2'' ''a2'' (snd (shouldFollowUp 4 ''q'' ''a'' (new_manager None None)))))"
proof -
  let ?m = "new_manager None None"
  have p: "\<not> followUpPending ?m" and i: "questionIndex ?m = 0"
    by (simp_all add: new_manager_def Let_def)
  let ?m1 = "snd (shouldFollowUp 4 ''q'' ''a'' ?m)"
  have p1: "followUpPending ?m1"
    using shouldFollowUp_decision[of 4 "''q''" "''a''" ?m] p by (simp add: Let_def)
  show ?thesis
    using shouldFollowUp_decision[of 4 "''q''" "''a''" ?m]
      shouldFollowUp_decision[of 6 "''q''" "''a''" ?m]
      shouldFollowUp_decision[of 9 "''q''" "''a''" ?m]
      shouldFollowUp_decision[of 4 "''q2''" "''a2''" ?m1] p i p1
    by (simp add: Let_def)
qed


section \<open>Properties of the evaluation engine\<close>

lemma kw_score_range:
  "0 \<le> kw_score (evaluateKeywordCoverage answer question) \<and>
   kw_score (evaluateKeywordCoverage answer question) \<le> 10"
  by (simp add: evaluateKeywordCoverage_def Let_def js_round_nonneg double_ops_nonneg)

lemma star_score_nonneg: "0 \<le> star_score (evaluateSTARMethod answer)"
  by (simp add: evaluateSTARMethod_def Let_def js_round_nonneg double_ops_nonneg)

lemma completeness_round_nonneg:
  fixes l s p r :: int
  assumes "0 \<le> l" "0 \<le> s" "0 \<le> p" "0 \<le> r"
  shows "0 \<le> js_round
             (dadd (dadd (dadd (dmul (of_int l) (dlit (3 / 10))) (dmul (of_int s) (dlit (25 / 100))))
                         (dmul (of_int p) (dlit (25 / 100))))
                   (dmul (of_int r) (dlit (2 / 10))))"
  using assms by (intro js_round_nonneg double_ops_nonneg) simp_all

lemma cp_score_range:
  "0 \<le> cp_score (evaluateCompleteness answer) \<and> cp_score (evaluateCompleteness answer) \<le> 10"
proof -
  have "0 \<le> cp_score (evaluateCompleteness answer)"
    unfolding evaluateCompleteness_def Let_def
    apply (simp only: completeness_analysis.simps)
    apply (rule min.boundedI)
     apply simp
    apply (rule completeness_round_nonneg)
       apply (simp_all add: star_score_nonneg)
    done
  moreover have "cp_score (evaluateCompleteness answer) \<le> 10"
    unfolding evaluateCompleteness_def Let_def
    by (simp only: completeness_analysis.simps min.cobounded1)
  ultimately show ?thesis by blast
qed

lemma cf_score_range:
  "1 \<le> cf_score (evaluateConfidence answer) \<and> cf_score (evaluateConfidence answer) \<le> 10"
  by (simp add: evaluateConfidence_def Let_def)

lemma weighted_sum_nonneg:
  assumes "0 \<le> ai" "0 \<le> kw" "0 \<le> cp" "0 \<le> cf"
  shows "0 \<le> js_round (weighted_sum ai kw cp cf)"
  unfolding weighted_sum_def
  using assms by (intro js_round_nonneg double_ops_nonneg) simp_all

lemma clamp10_id: "0 \<le> x \<Longrightarrow> x \<le> 10 \<Longrightarrow> clamp10 x = x"
  by (simp add: clamp10_def)

lemma dmul_commute: "dmul x y = dmul y x"
  by (simp add: dmul_def mult.commute)

lemma spec_composite_in_range:
  assumes "0 \<le> ai" "ai \<le> 10" "0 \<le> kw" "kw \<le> 10" "0 \<le> cp" "cp \<le> 10" "0 \<le> cf" "cf \<le> 10"
  shows "spec_composite ai kw cp cf = min 10 (js_round (weighted_sum ai kw cp cf))"
proof -
  have "spec_composite ai kw cp cf = max 0 (min 10 (js_round (weighted_sum ai kw cp cf)))"
    unfolding spec_composite_def weighted_sum_def
      clamp10_id[OF assms(1,2)] clamp10_id[OF assms(3,4)] clamp10_id[OF assms(5,6)]
      clamp10_id[OF assms(7,8)]
    by (simp only: dmul_commute[of "dlit (35 / 100)"] dmul_commute[of "dlit (20 / 100)"]
        dmul_commute[of "dlit (25 / 100)"])
  moreover have "0 \<le> js_round (weighted_sum ai kw cp cf)"
    using assms by (intro weighted_sum_nonneg)
  ultimately show ?thesis by simp
qed

lemma evaluateAnswer_in_range:
  assumes "0 \<le> aiScore" and "aiScore \<le> 10"
  shows "(let e = evaluateAnswer answer question aiScore;
              kw = of_int (kw_score (dim_keywordCoverage e));
              cp = of_int (cp_score (dim_completeness e));
              cf = of_int (cf_score (dim_confidence e))
          in dim_keywordCoverage e = evaluateKeywordCoverage answer question \<and>
             dim_completeness e = evaluateCompleteness answer \<and>
             dim_confidence e = evaluateConfidence answer \<and>
             dim_aiJudgment e = aiScore \<and>
             0 \<le> kw \<and> kw \<le> 10 \<and> 0 \<le> cp \<and> cp \<le> 10 \<and> 1 \<le> cf \<and> cf \<le> 10 \<and>
             compositeScore e = spec_composite aiScore kw cp cf \<and>
             0 \<le> compositeScore e \<and> compositeScore e \<le> 10)"
proof -
  let ?kw = "of_int (kw_score (evaluateKeywordCoverage answer question)) :: rat"
  let ?cp = "of_int (cp_score (evaluateCompleteness answer)) :: rat"
  let ?cf = "of_int (cf_score (evaluateConfidence answer)) :: rat"
  have kw: "0 \<le> ?kw" "?kw \<le> 10" using kw_score_range[of answer question] by simp_all
  have cp: "0 \<le> ?cp" "?cp \<le> 10" using cp_score_range[of answer] by simp_all
  have cf: "1 \<le> ?cf" "?cf \<le> 10" using cf_score_range[of answer] by simp_all
  from cf have cf0: "0 \<le> ?cf" by simp
  have r: "0 \<le> js_round (weighted_sum aiScore ?kw ?cp ?cf)"
    using assms(1) kw(1) cp(1) cf0 by (rule weighted_sum_nonneg)
  have c: "compositeScore (evaluateAnswer answer question aiScore)
             = min 10 (js_round (weighted_sum aiScore ?kw ?cp ?cf))"
    by (simp add: evaluateAnswer_def Let_def)
  have s: "spec_composite aiScore ?kw ?cp ?cf = min 10 (js_round (weighted_sum aiScore ?kw ?cp ?cf))"
    using assms kw cp cf0 cf(2) by (rule spec_composite_in_range)
  have range: "0 \<le> compositeScore (evaluateAnswer answer question aiScore)"
    "compositeScore (evaluateAnswer answer question aiScore) \<le> 10"
    unfolding c using r by simp_all
  have d: "dim_keywordCoverage (evaluateAnswer answer question aiScore) = evaluateKeywordCoverage answer question"
    "dim_completeness (evaluateAnswer answer question aiScore) = evaluateCompleteness answer"
    "dim_confidence (evaluateAnswer answer question aiScore) = evaluateConfidence answer"
    "dim_aiJudgment (evaluateAnswer answer question aiScore) = aiScore"
    by (simp_all add: evaluateAnswer_def Let_def)
  have "compositeScore (evaluateAnswer answer question aiScore) = spec_composite aiScore ?kw ?cp ?cf"
    unfolding c s ..
  with kw cp cf range show ?thesis
    unfolding Let_def d by blast
qed

lemma empty_answer_words: "words_of [] = []"
  by (simp add: words_of_def trim_def)

lemma keywords_nonempty: "[] \<notin> set (lookup_list TECHNICAL_KEYWORDS t)"
  by (simp add: lookup_list_def TECHNICAL_KEYWORDS_def)

lemma empty_answer_coverage: "kw_score (evaluateKeywordCoverage [] question) = 0"
proof -
  let ?ts = "detectRelevantTopics (toLowerCase question)"
  let ?a = "concat (map (lookup_list TECHNICAL_KEYWORDS) ?ts)"
  let ?b = "if ''general'' \<notin> set ?ts then ?a @ lookup_list TECHNICAL_KEYWORDS ''general'' else ?a"
  let ?c = "if ''behavioral'' \<notin> set ?ts then ?b @ lookup_list TECHNICAL_KEYWORDS ''behavioral'' else ?b"
  have "[] \<notin> set ?a" using keywords_nonempty by auto
  then have "[] \<notin> set ?b" using keywords_nonempty by auto
  then have "[] \<notin> set ?c" using keywords_nonempty by auto
  then have "[] \<notin> set (uniq ?c)" by (simp add: uniq_def)
  then have "filter (\<lambda>kw. str_includes (toLowerCase []) kw) (uniq ?c) = []"
    by (auto simp: toLowerCase_def filter_empty_conv)
  then show ?thesis
    by (simp add: evaluateKeywordCoverage_def Let_def js_round_0 double_ops_zero)
qed

lemma empty_answer_star: "star_score (evaluateSTARMethod []) = 0"
  by (simp add: evaluateSTARMethod_def Let_def toLowerCase_def STAR_KEYWORDS_def js_round_0
      double_ops_zero)

lemma empty_answer_completeness: "cp_score (evaluateCompleteness []) = 3"
  by code_simp

lemma empty_answer_confidence: "cf_score (evaluateConfidence []) = 7"
  by code_simp

lemma empty_answer_composite: "compositeScore (evaluateAnswer [] question aiScore) =
    min 10 (js_round (weighted_sum aiScore 0 3 7))"
  by (simp add: evaluateAnswer_def Let_def empty_answer_coverage empty_answer_completeness
      empty_answer_confidence)

lemma empty_answer_sums:
  "js_round (weighted_sum 0 0 3 7) = 2"
  "js_round (weighted_sum (- 10) 0 3 7) = - 1"
  "spec_composite (- 10) 0 3 7 = 2"
  by code_simp+

text \<open>
  Claim C3 (amended). The empty answer with \<open>aiScore = 0\<close>, whatever the question: keyword
  coverage 0, completeness exactly 3 (the rounding of 0.3 * 2 + 0.25 * 4 + 0.25 * 4 + 0.2 * 0
  = 2.6), confidence 7, and composite \<open>round(0.25 * 3 + 0.20 * 7) = round(2.15) = 2\<close>.
\<close>

theorem empty_answer_floor:
  "kw_score (dim_keywordCoverage (evaluateAnswer [] question 0)) = 0 \<and>
   cp_score (dim_completeness (evaluateAnswer [] question 0)) = 3 \<and>
   cf_score (dim_confidence (evaluateAnswer [] question 0)) = 7 \<and>
   compositeScore (evaluateAnswer [] question 0) = js_round (25 / 100 * 3 + 20 / 100 * 7) \<and>
   compositeScore (evaluateAnswer [] question 0) = 2"
proof -
  have "compositeScore (evaluateAnswer [] question 0) = 2"
    by (simp add: empty_answer_composite empty_answer_sums)
  moreover have "js_round (25 / 100 * 3 + 20 / 100 * 7) = 2"
    by (simp add: js_round_eq_iff)
  ultimately show ?thesis
    by (simp add: evaluateAnswer_def Let_def empty_answer_coverage empty_answer_completeness
      empty_answer_confidence)
qed

text \<open>The theorem at a concrete question.\<close>

theorem empty_answer_floor_witness:
  "cp_score (dim_completeness (evaluateAnswer [] ''Tell me about React hooks'' 0)) = 3 \<and>
   compositeScore (evaluateAnswer [] ''Tell me about React hooks'' 0) = 2"
  using empty_answer_floor[of "''Tell me about React hooks''"] by simp

text \<open>
  Claim C3 as stated fails: the completeness score of the empty answer is 3, not at most 2,
  and the composite is 2, not 1.
\<close>

theorem empty_answer_floor_counterexample:
  "\<not> (cp_score (evaluateCompleteness []) \<le> 2 \<and> compositeScore (evaluateAnswer [] [] 0) = 1)"
  by (simp add: empty_answer_completeness)

lemma hesitant_answer_composite:
  "compositeScore (evaluateAnswer ''um uh maybe because 3'' [] 6) = 3"
  "kw_score (evaluateKeywordCoverage ''um uh maybe because 3'' []) = 0"
  "cp_score (evaluateCompleteness ''um uh maybe because 3'') = 4"
  "cf_score (evaluateConfidence ''um uh maybe because 3'') = 2"
  by code_simp+

text \<open>
  Claim C1 (amended). \<open>evaluateAnswer\<close> does not clamp its \<open>aiScore\<close> argument and clamps
  the composite from above only. For an \<open>aiScore\<close> in [0,10] (the server clamps the parsed
  score to that range before the call) the three computed dimension scores lie in [0,10],
  and the composite equals the specification's formula: the rounded weighted sum, as
  JavaScript evaluates it, of the dimensions clamped to [0,10], itself clamped to [0,10].
\<close>

theorem evaluateAnswer_composite:
  assumes "0 \<le> aiScore" and "aiScore \<le> 10"
  shows "(let e = evaluateAnswer answer question aiScore;
              kw = of_int (kw_score (dim_keywordCoverage e));
              cp = of_int (cp_score (dim_completeness e));
              cf = of_int (cf_score (dim_confidence e))
          in dim_keywordCoverage e = evaluateKeywordCoverage answer question \<and>
             dim_completeness e = evaluateCompleteness answer \<and>
             dim_confidence e = evaluateConfidence answer \<and>
             dim_aiJudgment e = aiScore \<and>
             0 \<le> kw \<and> kw \<le> 10 \<and> 0 \<le> cp \<and> cp \<le> 10 \<and> 1 \<le> cf \<and> cf \<le> 10 \<and>
             compositeScore e = spec_composite aiScore kw cp cf \<and>
             0 \<le> compositeScore e \<and> compositeScore e \<le> 10)"
  using assms by (rule evaluateAnswer_in_range)

text \<open>
  The theorem at a concrete call, where the double sum \<open>3.4999999999999996\<close> rounds to 3
  (the exact sum would be 3.5), and the range of the composite on the server's path.
\<close>

theorem evaluateAnswer_composite_witness:
  "(0::rat) \<le> 6 \<and> (6::rat) \<le> 10 \<and>
   compositeScore (evaluateAnswer ''um uh maybe because 3'' [] 6) = 3 \<and>
   spec_composite 6 0 4 2 = 3"
proof -
  have h: "(0::rat) \<le> 6" "(6::rat) \<le> 10" by simp_all
  from evaluateAnswer_composite[OF h, of "''um uh maybe because 3''" "[]"]
  have "compositeScore (evaluateAnswer ''um uh maybe because 3'' [] 6) =
        spec_composite 6
          (of_int (kw_score (dim_keywordCoverage (evaluateAnswer ''um uh maybe because 3'' [] 6))))
          (of_int (cp_score (dim_completeness (evaluateAnswer ''um uh maybe because 3'' [] 6))))
          (of_int (cf_score (dim_confidence (evaluateAnswer ''um uh maybe because 3'' [] 6))))"
    and d: "dim_keywordCoverage (evaluateAnswer ''um uh maybe because 3'' [] 6)
              = evaluateKeywordCoverage ''um uh maybe because 3'' []"
       "dim_completeness (evaluateAnswer ''um uh maybe because 3'' [] 6)
              = evaluateCompleteness ''um uh maybe because 3''"
       "dim_confidence (evaluateAnswer ''um uh maybe because 3'' [] 6)
              = evaluateConfidence ''um uh maybe because 3''"
    unfolding Let_def by blast+
  then have "compositeScore (evaluateAnswer ''um uh maybe because 3'' [] 6) = spec_composite 6 0 4 2"
    by (simp add: hesitant_answer_composite(2-4))
  with hesitant_answer_composite(1) h show ?thesis by simp
qed

lemma server_composite_range:
  "0 \<le> compositeScore (evaluateAnswer answer question (parsed_ai_score n)) \<and>
   compositeScore (evaluateAnswer answer question (parsed_ai_score n)) \<le> 10"
proof -
  have "(0::rat) \<le> parsed_ai_score n" "parsed_ai_score n \<le> 10"
    by (simp_all add: parsed_ai_score_def)
  from evaluateAnswer_in_range[OF this, of answer question] show ?thesis
    unfolding Let_def by blast
qed

text \<open>
  Claim C1 as stated fails for an \<open>aiScore\<close> outside [0,10]: with the empty answer and
  \<open>aiScore = -10\<close> (a direct call; the server clamps) the composite is \<open>-1\<close>, while the
  formula with every dimension clamped gives 2.
\<close>

theorem evaluateAnswer_composite_counterexample:
  "compositeScore (evaluateAnswer [] [] (- 10)) = - 1 \<and>
   spec_composite (- 10) (of_int (kw_score (evaluateKeywordCoverage [] [])))
      (of_int (cp_score (evaluateCompleteness []))) (of_int (cf_score (evaluateConfidence []))) = 2"
  by (simp add: empty_answer_composite empty_answer_coverage empty_answer_completeness
      empty_answer_confidence empty_answer_sums)


section \<open>Properties of the anti-cheat module\<close>









lemma complexity_spike_at_tie:
  "map fl_type (check_complexity_spike [ddiv 1 3, ddiv 1 3, ddiv 5 6] (ddiv 5 6)) = [''complexity_spike'']"
  by code_simp

lemma response_time_none: "response_time_sec now None = None"
  by (simp add: response_time_sec_def)

lemma timing_checks_skipped:
  "check_fast_response None n = []" "check_high_wpm None n = []" "check_score_timing None s n = []"
  by (simp_all add: check_fast_response_def check_high_wpm_def check_score_timing_def)

lemma non_timing_flag_types:
  "\<forall>f \<in> set (check_length_spike ls n). fl_type f \<notin> timing_flag_types"
  "\<forall>f \<in> set (check_complexity_spike cs c). fl_type f \<notin> timing_flag_types"
  "\<forall>f \<in> set (check_repetitive a). fl_type f \<notin> timing_flag_types"
  by (simp_all add: check_length_spike_def check_complexity_spike_def check_repetitive_def
      timing_flag_types_def Let_def)

text \<open>
  Claim C8. With no \<open>questionAsked\<close> stamp, \<open>analyzeAnswer\<close> raises exactly the flags of the
  length-spike, complexity-spike and repetitive-pattern checks (which do not read the
  response time), none of the three timing flags, and records no timing sample. The source
  has no throwing path in \<open>analyzeAnswer\<close>, and the model is a total function.
\<close>
theorem analyzeAnswer_without_timing:
  assumes "lastQuestionTime st = None"
  shows "(let r = fst (analyzeAnswer now answer score st);
              st' = snd (analyzeAnswer now answer score st)
          in ar_flags r =
               check_length_spike (responseLengths st') (last (responseLengths st'))
               @ check_complexity_spike (vocabularyComplexities st') (last (vocabularyComplexities st'))
               @ check_repetitive answer \<and>
             (\<forall>f \<in> set (ar_flags r). fl_type f \<notin> timing_flag_types) \<and>
             responseLengths st' = responseLengths st @ [length (words_of answer)] \<and>
             length (vocabularyComplexities st') = length (vocabularyComplexities st) + 1 \<and>
             responseTimings st' = responseTimings st \<and>
             am_responseTimeSec (ar_metrics r) = None \<and>
             lastQuestionTime st' = None)"
proof -
  have f: "ar_flags (fst (analyzeAnswer now answer score st)) =
        check_length_spike (responseLengths (snd (analyzeAnswer now answer score st)))
           (last (responseLengths (snd (analyzeAnswer now answer score st))))
        @ check_complexity_spike (vocabularyComplexities (snd (analyzeAnswer now answer score st)))
           (last (vocabularyComplexities (snd (analyzeAnswer now answer score st))))
        @ check_repetitive answer"
    by (simp add: analyzeAnswer_def Let_def assms response_time_none timing_checks_skipped)
  have t: "\<forall>f \<in> set (ar_flags (fst (analyzeAnswer now answer score st))). fl_type f \<notin> timing_flag_types"
    unfolding f using non_timing_flag_types by auto
  have rest: "responseLengths (snd (analyzeAnswer now answer score st))
                = responseLengths st @ [length (words_of answer)]"
    "length (vocabularyComplexities (snd (analyzeAnswer now answer score st)))
                = length (vocabularyComplexities st) + 1"
    "responseTimings (snd (analyzeAnswer now answer score st)) = responseTimings st"
    "am_responseTimeSec (ar_metrics (fst (analyzeAnswer now answer score st))) = None"
    "lastQuestionTime (snd (analyzeAnswer now answer score st)) = None"
    by (simp_all add: analyzeAnswer_def Let_def assms response_time_none)
  show ?thesis
    unfolding Let_def using f t rest by blast
qed

lemma spike_answer_flags:
  "map fl_type (ar_flags (fst (analyzeAnswer 5000 spike_answer 10 untimed_monitor)))
     = [''length_spike'', ''complexity_spike'', ''repetitive_pattern'']"
  by code_simp

text \<open>The theorem at a concrete monitor and answer.\<close>
theorem analyzeAnswer_without_timing_witness:
  "lastQuestionTime untimed_monitor = None \<and>
   map fl_type (ar_flags (fst (analyzeAnswer 5000 spike_answer 10 untimed_monitor)))
     = [''length_spike'', ''complexity_spike'', ''repetitive_pattern''] \<and>
   responseTimings (snd (analyzeAnswer 5000 spike_answer 10 untimed_monitor)) = []"
proof -
  have h: "lastQuestionTime untimed_monitor = None"
    by (simp add: untimed_monitor_def new_monitor_def)
  have e: "responseTimings untimed_monitor = []"
    by (simp add: untimed_monitor_def new_monitor_def)
  from analyzeAnswer_without_timing[OF h, of 5000 spike_answer 10] h e spike_answer_flags
  show ?thesis unfolding Let_def by simp
qed


section \<open>Properties of the skill gap module\<close>





lemma gap_score_values:
  "calculateOverallGapScore [gap_of_deficit 6, gap_of_deficit (dlit (55 / 10))] = 57"
  "calculateOverallGapScore [gap_of_deficit 10, gap_of_deficit (dlit (99 / 10))] = 99"
  by code_simp+




section \<open>The end-to-end scenario\<close>

lemma nines_average:
  "daverage [9] = Some 9" "daverage [9, 9] = Some 9" "daverage [9, 9, 9] = Some 9"
  by code_simp+

lemma three_nines_levels:
  "map_sum id (map (\<lambda>s. (levelHistory s, map ae_previousLevel (adaptationLog s), currentLevel s)))
       (record_scores [(t1, 9), (t2, 9), (t3, 9)] (new_manager (Some 1) (Some 3)))
   = Inr [([1, 1], [1], 1), ([1, 1, 2], [1, 1], 2), ([1, 1, 2, 3], [1, 1, 2], 3)]"
  by (simp add: recordScore_def new_manager_def js_or_def Let_def slice_from_def nines_average
      DIFFICULTY_LEVELS_def next_level_def nan_ge_def nan_le_def)

lemma three_nines_detector:
  assumes "detectTopics q1 = [''General'']" "detectTopics q2 = [''General'']"
    "detectTopics q3 = [''General'']"
  shows "track_all [(q1, a1, 9, ''technical''), (q2, a2, 9, ''technical''), (q3, a3, 9, ''technical'')]
           (new_detector (Some ''mid'')) = general_detector"
  using assms by (simp add: trackAnswer_def new_detector_def general_detector_def Let_def)

lemma general_detector_analysis:
  "ga_topicScores (getAnalysis general_detector) = [(''General'', Some 9)]"
  "getBaselineForTopic general_detector ''General'' = 7"
  "ga_gaps (getAnalysis general_detector) = []"
  "ga_strengths (getAnalysis general_detector) =
      [\<lparr>str_topic = ''General'', str_currentScore = 9, str_expectedScore = 7, str_surplus = 2\<rparr>]"
  by code_simp+

lemma exceptional_tier: "9 \<le> s \<Longrightarrow> pt_label (getPerformanceTier s) = ''Exceptional''"
  by (simp add: getPerformanceTier_def PERFORMANCE_TIERS_def)

text \<open>
  Claim C5 (amended). A manager starting at level 1 with window 3 that records three scores
  of 9 has level history [1,1], then [1,1,2], then [1,1,2,3]: no change on the first call,
  level 2 after the second (average 9, at least 7) and level 3 after the third (average 9,
  at least 8); the levels in force when the three answers were scored are [1,1,2]. A
  mid-level detector that tracked the three answers as \<open>technical\<close> on questions whose only
  topic is General reports General at average 9 against the baseline 7, no gap, and the
  strength General with surplus 2. A final score of 9 or more is in the tier Exceptional.
\<close>
theorem three_nines_scenario:
  assumes "detectTopics q1 = [''General'']" and "detectTopics q2 = [''General'']"
    and "detectTopics q3 = [''General'']" and "9 \<le> finalScore"
  shows "map_sum id (map (\<lambda>s. (levelHistory s, map ae_previousLevel (adaptationLog s), currentLevel s)))
           (record_scores [(t1, 9), (t2, 9), (t3, 9)] (new_manager (Some 1) (Some 3)))
         = Inr [([1, 1], [1], 1), ([1, 1, 2], [1, 1], 2), ([1, 1, 2, 3], [1, 1, 2], 3)] \<and>
         (let st = track_all [(q1, a1, 9, ''technical''), (q2, a2, 9, ''technical''),
                              (q3, a3, 9, ''technical'')] (new_detector (Some ''mid''));
              analysis = getAnalysis st
          in ga_topicScores analysis = [(''General'', Some 9)] \<and>
             getBaselineForTopic st ''General'' = 7 \<and>
             ga_gaps analysis = [] \<and>
             ga_strengths analysis =
               [\<lparr>str_topic = ''General'', str_currentScore = 9, str_expectedScore = 7,
                 str_surplus = 2\<rparr>]) \<and>
         pt_label (getPerformanceTier finalScore) = ''Exceptional''"
  unfolding Let_def three_nines_detector[OF assms(1-3)]
  using three_nines_levels general_detector_analysis exceptional_tier[OF assms(4)] by blast

lemma general_question_topic: "detectTopics general_question = [''General'']"
  by code_simp

text \<open>The theorem at a concrete question.\<close>
theorem three_nines_scenario_witness:
  "detectTopics general_question = [''General''] \<and> (9::rat) \<le> 9 \<and>
   ga_gaps (getAnalysis (track_all [(general_question, ''a'', 9, ''technical''),
        (general_question, ''b'', 9, ''technical''), (general_question, ''c'', 9, ''technical'')]
        (new_detector (Some ''mid'')))) = [] \<and>
   pt_label (getPerformanceTier 9) = ''Exceptional''"
proof -
  have h: "(9::rat) \<le> 9" by simp
  from three_nines_scenario[OF general_question_topic general_question_topic general_question_topic h,
      of 0 1 2 "''a''" "''b''" "''c''"] general_question_topic h
  show ?thesis unfolding Let_def by blast
qed

text \<open>
  Claim C5 as stated fails on the trajectory: after the three calls the level history is
  [1,1,2,3], not [1,1,2].
\<close>
theorem three_nines_scenario_counterexample:
  "map_sum id (map levelHistory)
      (record_scores [(0, 9), (1, 9), (2, 9)] (new_manager (Some 1) (Some 3)))
   = Inr [[1, 1], [1, 1, 2], [1, 1, 2, 3]] \<and> [1, 1, 2, 3] \<noteq> [1, 1, (2::int)]"
  by code_simp


section \<open>Serialization\<close>

lemma js_or_Some: "v \<noteq> 0 \<Longrightarrow> js_or (Some v) d = v"
  by (simp add: js_or_def)

lemma js_or_nonzero: "d \<noteq> 0 \<Longrightarrow> js_or x d \<noteq> 0"
  by (simp add: js_or_def split: option.splits)

lemma manager_round_trip:
  assumes "currentLevel st \<noteq> 0" "windowSize st \<noteq> 0"
  shows "fromSerialized (serialize st) = st"
  using assms
  by (simp add: fromSerialized_def serialize_def new_manager_def Let_def js_or_Some js_or_list_def
      js_or_def)

lemma next_level_nonzero:
  "l \<in> {1,2,3} \<Longrightarrow> next_level config l avg \<noteq> 0"
  by (auto simp: next_level_def)

lemma levels_only: "DIFFICULTY_LEVELS l = Some config \<Longrightarrow> l \<in> {1,2,3}"
  by (auto simp: DIFFICULTY_LEVELS_def split: if_splits)

lemma shouldFollowUp_level:
  "currentLevel (snd (shouldFollowUp score q a st)) = currentLevel st \<and>
   windowSize (snd (shouldFollowUp score q a st)) = windowSize st"
  by (simp add: shouldFollowUp_def)

lemma getNextQuestionConfig_level:
  "getNextQuestionConfig st = Inr r \<Longrightarrow>
     currentLevel (snd r) = currentLevel st \<and> windowSize (snd r) = windowSize st"
  by (auto simp: getNextQuestionConfig_def Let_def split: option.splits if_splits)

lemma call_manager_nonzero:
  assumes "call_manager c st = Inr st'" "currentLevel st \<noteq> 0" "windowSize st \<noteq> 0"
  shows "currentLevel st' \<noteq> 0 \<and> windowSize st' \<noteq> 0"
proof (cases c)
  case (RecordScore now score)
  show ?thesis
  proof (cases "length (scoreHistory st @ [score]) \<ge> 2")
    case True
    with assms(1) RecordScore obtain config where c: "DIFFICULTY_LEVELS (currentLevel st) = Some config"
      by (cases "DIFFICULTY_LEVELS (currentLevel st)") (auto simp: recordScore_def Let_def)
    from next_level_nonzero[OF levels_only[OF c]] c True assms RecordScore show ?thesis
      by (auto simp: recordScore_def Let_def)
  next
    case False
    with assms RecordScore show ?thesis
      by (auto simp: recordScore_def Let_def)
  qed
next
  case (ShouldFollowUp score q a)
  with assms(1) have "st' = snd (shouldFollowUp score q a st)" by simp
  with assms(2,3) shouldFollowUp_level[of score q a st] show ?thesis by simp
next
  case GetNextQuestionConfig
  with assms(1) obtain r where "getNextQuestionConfig st = Inr r" "st' = snd r"
    by (cases "getNextQuestionConfig st") auto
  with assms(2,3) getNextQuestionConfig_level[of st r] show ?thesis by simp
qed

lemma run_manager_nonzero:
  "run_manager cs st = Inr st' \<Longrightarrow> currentLevel st \<noteq> 0 \<Longrightarrow> windowSize st \<noteq> 0 \<Longrightarrow>
     currentLevel st' \<noteq> 0 \<and> windowSize st' \<noteq> 0"
proof (induction cs arbitrary: st)
  case Nil
  then show ?case by simp
next
  case (Cons c cs)
  from Cons.prems(1) obtain st1 where c: "call_manager c st = Inr st1" and r: "run_manager cs st1 = Inr st'"
    by (cases "call_manager c st") auto
  from call_manager_nonzero[OF c Cons.prems(2,3)] Cons.IH[OF r] show ?case by blast
qed

lemma new_manager_nonzero:
  "currentLevel (new_manager l w) \<noteq> 0 \<and> windowSize (new_manager l w) \<noteq> 0"
  by (simp add: new_manager_def Let_def js_or_nonzero)

lemma trackAnswer_baseline:
  "roleLevel (snd (trackAnswer q a s t st)) = roleLevel st \<and>
   baseline (snd (trackAnswer q a s t st)) = baseline st"
  by (simp add: trackAnswer_def Let_def)

lemma track_all_baseline:
  "roleLevel (track_all xs st) = roleLevel st \<and> baseline (track_all xs st) = baseline st"
proof (induction xs arbitrary: st)
  case Nil
  then show ?case by simp
next
  case (Cons x xs)
  obtain q a s t where x: "x = (q, a, s, t)" by (cases x) auto
  show ?case unfolding x using Cons.IH trackAnswer_baseline by simp
qed

lemma detector_round_trip:
  assumes "baseline st = baseline_of (roleLevel st)"
  shows "detector_fromSerialized (serialize_detector st) = st"
  using assms
  by (simp add: detector_fromSerialized_def serialize_detector_def new_detector_def Let_def
      js_or_list_def js_or_def)

lemma new_detector_baseline: "baseline (new_detector r) = baseline_of (roleLevel (new_detector r))"
  by (simp add: new_detector_def Let_def)

lemma same_snapshot:
  assumes "serialize_monitor m1 = serialize_monitor m2"
  shows "questionAsked t m1 = questionAsked t m2"
proof -
  from assms have "responseTimings m1 = responseTimings m2" "responseLengths m1 = responseLengths m2"
    "vocabularyComplexities m1 = vocabularyComplexities m2" "flags m1 = flags m2"
    "overallSuspicionScore m1 = overallSuspicionScore m2"
    by (simp_all add: serialize_monitor_def)
  then show ?thesis
    by (simp add: questionAsked_def)
qed

text \<open>
  Claim C7 (amended). For every manager state reached from the constructor by method
  calls, \<open>fromSerialized (serialize st)\<close> is \<open>st\<close> itself, so the next \<open>recordScore\<close> decides
  the same; for every detector state reached from the constructor by \<open>trackAnswer\<close> calls,
  the restored detector is the detector itself and gives the same analysis. The anti-cheat
  monitor has \<open>serialize\<close> only and its snapshot leaves out \<open>lastQuestionTime\<close>: two monitors
  with the same snapshot give the same \<open>analyzeAnswer\<close> result once \<open>questionAsked\<close> has
  stamped both at the same time.
\<close>
theorem serialization_round_trip:
  "(run_manager cs (new_manager l w) = Inr st \<longrightarrow>
      fromSerialized (serialize st) = st \<and>
      recordScore now score (fromSerialized (serialize st)) = recordScore now score st) \<and>
   (let sg = track_all xs (new_detector r)
    in detector_fromSerialized (serialize_detector sg) = sg \<and>
       getAnalysis (detector_fromSerialized (serialize_detector sg)) = getAnalysis sg) \<and>
   (serialize_monitor m1 = serialize_monitor m2 \<longrightarrow>
      analyzeAnswer now' answer s (questionAsked t m1) = analyzeAnswer now' answer s (questionAsked t m2))"
proof -
  have a: "fromSerialized (serialize st) = st" if "run_manager cs (new_manager l w) = Inr st"
    using run_manager_nonzero[OF that] new_manager_nonzero[of l w] manager_round_trip by blast
  have "baseline (track_all xs (new_detector r)) = baseline_of (roleLevel (track_all xs (new_detector r)))"
    using track_all_baseline[of xs "new_detector r"] new_detector_baseline[of r] by simp
  then have b: "detector_fromSerialized (serialize_detector (track_all xs (new_detector r)))
                 = track_all xs (new_detector r)"
    by (rule detector_round_trip)
  show ?thesis
    unfolding Let_def b using a same_snapshot[of m1 m2 t] by auto
qed

text \<open>The theorem at a concrete manager and two concrete monitors.\<close>
theorem serialization_round_trip_witness:
  "(\<exists>st. run_manager [RecordScore 0 9, ShouldFollowUp 9 ''q'' ''a''] (new_manager None None) = Inr st \<and>
         fromSerialized (serialize st) = st) \<and>
   serialize_monitor (questionAsked 1000 new_monitor) = serialize_monitor new_monitor \<and>
   analyzeAnswer 2000 fast_answer 5 (questionAsked 1500 (questionAsked 1000 new_monitor))
     = analyzeAnswer 2000 fast_answer 5 (questionAsked 1500 new_monitor)"
proof -
  have "currentLevel (new_manager None None) \<in> {1,2,3}"
    by (simp add: new_manager_def js_or_def)
  moreover have "history_ok 1 (new_manager None None)"
    by (simp add: new_manager_def js_or_def history_ok_def)
  ultimately obtain st where
    r: "run_manager [RecordScore 0 9, ShouldFollowUp 9 ''q'' ''a''] (new_manager None None) = Inr st"
    using run_manager_history[of "new_manager None None" 1 "[RecordScore 0 9, ShouldFollowUp 9 ''q'' ''a'']"]
    by blast
  have e: "serialize_monitor (questionAsked 1000 new_monitor) = serialize_monitor new_monitor"
    by (simp add: serialize_monitor_def questionAsked_def)
  from serialization_round_trip[of "[RecordScore 0 9, ShouldFollowUp 9 ''q'' ''a'']" None None st
      0 0 "[]" None "questionAsked 1000 new_monitor" new_monitor 2000 fast_answer 5 1500] r e
  show ?thesis by blast
qed

text \<open>
  Claim C7 as stated fails for the anti-cheat state: \<open>serialize\<close> leaves out
  \<open>lastQuestionTime\<close> (and the class has no restoring method), so two monitors with the same
  snapshot can give different suspicion scores on the same next \<open>analyzeAnswer\<close>.
\<close>
theorem snapshot_round_trip_counterexample:
  "serialize_monitor (questionAsked 1000 new_monitor) = serialize_monitor new_monitor \<and>
   overallSuspicionScore (snd (analyzeAnswer 2000 fast_answer 5 (questionAsked 1000 new_monitor))) = 12 \<and>
   overallSuspicionScore (snd (analyzeAnswer 2000 fast_answer 5 new_monitor)) = 0"
  by code_simp

end
